theory Spec2Isabelle
  imports Main
begin

section \<open>Strings and regular-expression replacement\<close>

text \<open>
  A JavaScript string is modelled as a list of characters (code units below 256).
  \<open>\s\<close> of a regular expression and \<^verbatim>\<open>trim\<close> see tab, line feed, vertical tab, form
  feed, carriage return, space and the no-break space as white space.
\<close>

definition isSpace :: "char \<Rightarrow> bool" where
  "isSpace c = (c \<in> set [CHR 0x09, CHR 0x0A, CHR 0x0B, CHR 0x0C, CHR 0x0D, CHR 0x20, CHR 0xA0])"

definition dq :: char where
  "dq = CHR 0x22"

text \<open>\<^verbatim>\<open>s.startsWith(p)\<close>.\<close>

fun startsWith :: "string \<Rightarrow> string \<Rightarrow> bool" where
  "startsWith s [] = True"
| "startsWith [] (p # ps) = False"
| "startsWith (c # cs) (p # ps) = (c = p \<and> startsWith cs ps)"

text \<open>
  \<^verbatim>\<open>s.replace(/re/g, ...)\<close>: the matcher \<open>m\<close> is tried at every position from the left;
  where it matches it yields the length of the match (at least 1 for every pattern
  used here) and the text put in its place, and the scan goes on behind the match;
  elsewhere the character is copied.
\<close>

fun replaceAll :: "(string \<Rightarrow> (nat \<times> string) option) \<Rightarrow> string \<Rightarrow> string" where
  "replaceAll m [] = []"
| "replaceAll m (c # cs) =
     (case m (c # cs) of
        Some (n, r) \<Rightarrow> r @ replaceAll m (drop (n - 1) cs)
      | None \<Rightarrow> c # replaceAll m cs)"

text \<open>A pattern that is a plain literal, replaced by the empty string.\<close>

definition matchLit :: "string \<Rightarrow> string \<Rightarrow> (nat \<times> string) option" where
  "matchLit lit s = (if startsWith s lit then Some (length lit, []) else None)"

section \<open>Markup normalizer (TemplateEngine.cleanWordXmlLikeLibreOffice)\<close>

text \<open>\<^verbatim>\<open>/\s+NAME="[^"]*"/\<close> for an attribute name such as \<^verbatim>\<open>w:rsidR\<close>.\<close>

definition matchAttr :: "string \<Rightarrow> string \<Rightarrow> (nat \<times> string) option" where
  "matchAttr name s =
     (let w = takeWhile isSpace s; r = dropWhile isSpace s in
      if w = [] \<or> \<not> startsWith r (name @ [CHR ''='', dq]) then None
      else let v = drop (length name + 2) r;
               a = takeWhile (\<lambda>c. c \<noteq> dq) v in
           if dropWhile (\<lambda>c. c \<noteq> dq) v = [] then None
           else Some (length w + length name + 2 + length a + 1, []))"

text \<open>\<^verbatim>\<open>/<w:proofErr[^>]*\/>/\<close>: the tag must close with \<^verbatim>\<open>/>\<close> at its first \<^verbatim>\<open>>\<close>.\<close>

definition matchProofErr :: "string \<Rightarrow> (nat \<times> string) option" where
  "matchProofErr s =
     (if \<not> startsWith s ''<w:proofErr'' then None
      else let v = drop 11 s;
               a = takeWhile (\<lambda>c. c \<noteq> CHR ''>'') v in
           if dropWhile (\<lambda>c. c \<noteq> CHR ''>'') v = [] \<or> a = [] \<or> last a \<noteq> CHR ''/'' then None
           else Some (11 + length a + 1, []))"

text \<open>\<^verbatim>\<open>/<\/w:t><\/w:r><w:r\s+[^>]*><w:t>/\<close>: a seam whose second run has attributes.\<close>

definition matchSeamAttrs :: "string \<Rightarrow> (nat \<times> string) option" where
  "matchSeamAttrs s =
     (if \<not> startsWith s ''</w:t></w:r><w:r'' then None
      else let v = drop 16 s;
               a = takeWhile (\<lambda>c. c \<noteq> CHR ''>'') v;
               r = dropWhile (\<lambda>c. c \<noteq> CHR ''>'') v in
           if v = [] \<or> \<not> isSpace (hd v) \<or> r = [] \<or> \<not> startsWith (tl r) ''<w:t>'' then None
           else Some (16 + length a + 1 + 5, []))"

text \<open>\<^verbatim>\<open>/<\/w:t><\/w:r><w:r[^>]*><w:t\s+xml:space="preserve">/\<close>.\<close>

definition matchSeamPreserve :: "string \<Rightarrow> (nat \<times> string) option" where
  "matchSeamPreserve s =
     (if \<not> startsWith s ''</w:t></w:r><w:r'' then None
      else let v = drop 16 s;
               a = takeWhile (\<lambda>c. c \<noteq> CHR ''>'') v;
               r = dropWhile (\<lambda>c. c \<noteq> CHR ''>'') v in
           if r = [] \<or> \<not> startsWith (tl r) ''<w:t'' then None
           else let u = drop 4 (tl r);
                    w = takeWhile isSpace u in
                if w = [] \<or> \<not> startsWith (dropWhile isSpace u) (''xml:space='' @ [dq] @ ''preserve'' @ [dq] @ ''>'')
                then None
                else Some (16 + length a + 1 + 4 + length w + 21, []))"

text \<open>One round of the \<^verbatim>\<open>do\<close> body: the three seam replacements in the source's order.\<close>

definition mergePass :: "string \<Rightarrow> string" where
  "mergePass xml =
     replaceAll matchSeamPreserve
       (replaceAll (matchLit ''</w:t></w:r><w:r><w:t>'')
          (replaceAll matchSeamAttrs xml))"

text \<open>
  The \<^verbatim>\<open>do { ... } while (xml.length < previousLength)\<close> loop with its counter:
  the body runs, \<^verbatim>\<open>iterations++\<close>, then \<^verbatim>\<open>if (iterations > 20) break\<close>.
  The result carries the final value of \<^verbatim>\<open>iterations\<close>, which is the number of
  rounds performed.
\<close>

function mergeLoop :: "string \<Rightarrow> nat \<Rightarrow> string \<times> nat" where
  "mergeLoop xml iterations =
     (let previousLength = length xml;
          xml' = mergePass xml;
          iterations' = Suc iterations
      in if iterations' > 20 then (xml', iterations')
         else if length xml' < previousLength then mergeLoop xml' iterations'
         else (xml', iterations'))"
  by pat_completeness auto
termination
  by (relation "measure (\<lambda>(xml, iterations). 21 - iterations)") auto

declare mergeLoop.simps [simp del]

text \<open>\<^verbatim>\<open>/<w:r\s+[^>]*><\/w:r>/\<close>: an empty run with attributes.\<close>

definition matchEmptyRunAttrs :: "string \<Rightarrow> (nat \<times> string) option" where
  "matchEmptyRunAttrs s =
     (if \<not> startsWith s ''<w:r'' then None
      else let v = drop 4 s;
               a = takeWhile (\<lambda>c. c \<noteq> CHR ''>'') v;
               r = dropWhile (\<lambda>c. c \<noteq> CHR ''>'') v in
           if v = [] \<or> \<not> isSpace (hd v) \<or> r = [] \<or> \<not> startsWith (tl r) ''</w:r>'' then None
           else Some (4 + length a + 1 + 6, []))"

definition stripRevisionMarks :: "string \<Rightarrow> string" where
  "stripRevisionMarks xml =
     replaceAll matchProofErr
       (foldl (\<lambda>x name. replaceAll (matchAttr name) x) xml
          [''w:rsidR'', ''w:rsidRDefault'', ''w:rsidP'', ''w:rsidRPr'', ''w:rsidDel'', ''w:rsidTr'',
           ''w14:paraId'', ''w14:textId''])"

definition removeEmptyRuns :: "string \<Rightarrow> string" where
  "removeEmptyRuns xml =
     replaceAll (matchLit ''<w:r><w:rPr/></w:r>'')
       (replaceAll matchEmptyRunAttrs
          (replaceAll (matchLit ''<w:r></w:r>'') xml))"

definition cleanWordXmlLikeLibreOffice :: "string \<Rightarrow> string" where
  "cleanWordXmlLikeLibreOffice xml =
     removeEmptyRuns (fst (mergeLoop (stripRevisionMarks xml) 0))"

text \<open>The number of rounds of the merge loop that normalization performs on an input.\<close>

definition mergeIterations :: "string \<Rightarrow> nat" where
  "mergeIterations xml = snd (mergeLoop (stripRevisionMarks xml) 0)"

text \<open>
  An input that needs one round per level: a seam wrapped in the two halves of a seam,
  \<open>n\<close> times over.
\<close>

fun nestedSeams :: "nat \<Rightarrow> string" where
  "nestedSeams 0 = []"
| "nestedSeams (Suc n) = ''</w:t></w:r><w:r>'' @ nestedSeams n @ ''<w:t>''"

section \<open>Values and the JavaScript engine\<close>

text \<open>
  The data handed to the template engine is a JSON-like tree. Numbers are kept
  abstract (type \<open>'n\<close>): what the engine does with a number (printing, parsing,
  arithmetic, comparison) is a field of the record \<open>js_host\<close> below.
\<close>

datatype 'n jsval =
    Undefined
  | Null
  | Bool bool
  | Num 'n
  | Str string
  | Arr "'n jsval list"
  | Obj "(string \<times> 'n jsval) list"

text \<open>
  An operation that may throw returns \<open>Inl\<close> with the message of the error, or
  \<open>Inr\<close> with its value.
\<close>

type_synonym 'a result = "string + 'a"

text \<open>
  What the code takes from the engine it runs on. \<open>run_function src\<close> is
  \<^verbatim>\<open>new Function('Math', 'Date', 'parseInt', 'parseFloat', 'isNaN', 'isFinite',
  'return (' + src + ');')(Math, Date, parseInt, parseFloat, isNaN, isFinite)\<close>:
  the value of the compiled source, or \<open>None\<close> when compiling or running it
  throws. \<open>inherited v k\<close> is the property \<open>k\<close> that \<open>v\<close> finds on its prototype
  chain (\<open>Undefined\<close> when there is none). \<open>json_number n\<close> is
  \<^verbatim>\<open>JSON.parse(JSON.stringify(n))\<close> for a number: the number itself, and \<^verbatim>\<open>null\<close>
  for NaN and the infinities. The \<open>msg_\<close> fields are the messages of the engine's
  TypeErrors.
\<close>

record 'n js_host =
  run_function :: "string \<Rightarrow> 'n jsval option"
  inherited :: "'n jsval \<Rightarrow> string \<Rightarrow> 'n jsval"
  json_stringify :: "'n jsval \<Rightarrow> string"
  json_number :: "'n \<Rightarrow> 'n jsval"
  num_of_nat :: "nat \<Rightarrow> 'n"
  num_nan :: "'n"
  num_falsy :: "'n \<Rightarrow> bool"
  num_to_string :: "'n \<Rightarrow> string"
  str_to_num :: "string \<Rightarrow> 'n"
  parse_float :: "string \<Rightarrow> 'n"
  num_eq :: "'n \<Rightarrow> 'n \<Rightarrow> bool"
  num_lt :: "'n \<Rightarrow> 'n \<Rightarrow> bool"
  num_le :: "'n \<Rightarrow> 'n \<Rightarrow> bool"
  num_mul :: "'n \<Rightarrow> 'n \<Rightarrow> 'n"
  num_div :: "'n \<Rightarrow> 'n \<Rightarrow> 'n"
  num_pow :: "'n \<Rightarrow> 'n \<Rightarrow> 'n"
  num_round :: "'n \<Rightarrow> 'n"
  to_fixed :: "'n \<Rightarrow> 'n jsval \<Rightarrow> string result"
  intl_currency :: "'n jsval \<Rightarrow> 'n jsval \<Rightarrow> 'n \<Rightarrow> string result"
  msg_object_keys :: string
  msg_read_property :: string
  msg_to_primitive :: string

subsection \<open>More string functions\<close>

definition isDigit :: "char \<Rightarrow> bool" where
  "isDigit c = (c \<in> set ''0123456789'')"

definition isIdentStart :: "char \<Rightarrow> bool" where
  "isIdentStart c = (c \<in> set ''abcdefghijklmnopqrstuvwxyzABCDEFGHIJKLMNOPQRSTUVWXYZ_'')"

text \<open>\<open>\w\<close> of a regular expression.\<close>

definition isWordChar :: "char \<Rightarrow> bool" where
  "isWordChar c = (isIdentStart c \<or> isDigit c)"

text \<open>\<open>.\<close> of a regular expression matches everything but a line terminator.\<close>

definition isLineTerminator :: "char \<Rightarrow> bool" where
  "isLineTerminator c = (c = CHR 0x0A \<or> c = CHR 0x0D)"

definition trim :: "string \<Rightarrow> string" where
  "trim s = rev (dropWhile isSpace (rev (dropWhile isSpace s)))"

text \<open>\<^verbatim>\<open>s.endsWith(p)\<close>.\<close>

definition endsWith :: "string \<Rightarrow> string \<Rightarrow> bool" where
  "endsWith s p = startsWith (rev s) (rev p)"

text \<open>\<^verbatim>\<open>s.split(c)\<close> for a one-character separator: always at least one piece.\<close>

fun splitOn :: "char \<Rightarrow> string \<Rightarrow> string list" where
  "splitOn sep [] = [[]]"
| "splitOn sep (c # cs) =
     (if c = sep then [] # splitOn sep cs
      else (case splitOn sep cs of p # ps \<Rightarrow> (c # p) # ps | [] \<Rightarrow> [[c]]))"

text \<open>\<^verbatim>\<open>s.indexOf(p)\<close>, with \<open>None\<close> for \<open>-1\<close>, and \<^verbatim>\<open>s.indexOf(p, k)\<close> for \<open>k\<close> within the string.\<close>

fun indexOf :: "string \<Rightarrow> string \<Rightarrow> nat option" where
  "indexOf [] p = (if p = [] then Some 0 else None)"
| "indexOf (c # cs) p =
     (if startsWith (c # cs) p then Some 0 else map_option Suc (indexOf cs p))"

definition indexOfFrom :: "string \<Rightarrow> string \<Rightarrow> nat \<Rightarrow> nat option" where
  "indexOfFrom s p k = map_option (\<lambda>i. k + i) (indexOf (drop k s) p)"

definition includesStr :: "string \<Rightarrow> string \<Rightarrow> bool" where
  "includesStr s p = (indexOf s p \<noteq> None)"

text \<open>\<^verbatim>\<open>pieces.join(sep)\<close>.\<close>

fun join :: "string \<Rightarrow> string list \<Rightarrow> string" where
  "join sep [] = []"
| "join sep [p] = p"
| "join sep (p # q # ps) = p @ sep @ join sep (q # ps)"

text \<open>Decimal digits of an array index, and back (\<^verbatim>\<open>parseInt\<close> on a string of digits).\<close>

function nat_to_string :: "nat \<Rightarrow> string" where
  "nat_to_string n =
     (if n < 10 then [''0123456789'' ! n]
      else nat_to_string (n div 10) @ [''0123456789'' ! (n mod 10)])"
  by pat_completeness auto
termination
  by (relation "measure id") auto

declare nat_to_string.simps [simp del]

definition digit_value :: "char \<Rightarrow> nat" where
  "digit_value c = (case indexOf ''0123456789'' [c] of Some d \<Rightarrow> d | None \<Rightarrow> 0)"

definition digits_to_nat :: "string \<Rightarrow> nat" where
  "digits_to_nat s = foldl (\<lambda>n c. 10 * n + digit_value c) 0 s"

text \<open>A property key that is an array index: the canonical decimal form of a number.\<close>

definition array_index :: "string \<Rightarrow> nat option" where
  "array_index k =
     (if k \<noteq> [] \<and> list_all isDigit k \<and> nat_to_string (digits_to_nat k) = k
      then Some (digits_to_nat k) else None)"

subsection \<open>Conversions and property access\<close>

definition isNullish :: "'n jsval \<Rightarrow> bool" where
  "isNullish v = (case v of Undefined \<Rightarrow> True | Null \<Rightarrow> True | _ \<Rightarrow> False)"

text \<open>The truth value of a value in a condition, \<^verbatim>\<open>!v\<close>, \<^verbatim>\<open>v || w\<close> and \<^verbatim>\<open>v && w\<close>.\<close>

fun truthy :: "'n js_host \<Rightarrow> 'n jsval \<Rightarrow> bool" where
  "truthy h Undefined = False"
| "truthy h Null = False"
| "truthy h (Bool b) = b"
| "truthy h (Num n) = (\<not> num_falsy h n)"
| "truthy h (Str s) = (s \<noteq> [])"
| "truthy h (Arr xs) = True"
| "truthy h (Obj fs) = True"

text \<open>\<^verbatim>\<open>typeof v === 'object'\<close>.\<close>

fun typeofObject :: "'n jsval \<Rightarrow> bool" where
  "typeofObject Null = True"
| "typeofObject (Arr xs) = True"
| "typeofObject (Obj fs) = True"
| "typeofObject v = False"

text \<open>
  \<^verbatim>\<open>v[k]\<close> for a value that is neither \<^verbatim>\<open>null\<close> nor \<^verbatim>\<open>undefined\<close>: an own
  property if there is one, else what the prototype chain gives.
\<close>

fun getProp :: "'n js_host \<Rightarrow> 'n jsval \<Rightarrow> string \<Rightarrow> 'n jsval" where
  "getProp h (Obj fs) k = (case map_of fs k of Some x \<Rightarrow> x | None \<Rightarrow> inherited h (Obj fs) k)"
| "getProp h (Arr xs) k =
     (if k = ''length'' then Num (num_of_nat h (length xs))
      else case array_index k of
             Some i \<Rightarrow> if i < length xs then xs ! i else inherited h (Arr xs) k
           | None \<Rightarrow> inherited h (Arr xs) k)"
| "getProp h (Str s) k =
     (if k = ''length'' then Num (num_of_nat h (length s))
      else case array_index k of
             Some i \<Rightarrow> if i < length s then Str [s ! i] else inherited h (Str s) k
           | None \<Rightarrow> inherited h (Str s) k)"
| "getProp h v k = inherited h v k"

text \<open>\<^verbatim>\<open>v[k]\<close> for any value: reading a property of \<^verbatim>\<open>null\<close> or \<^verbatim>\<open>undefined\<close> throws.\<close>

definition readProp :: "'n js_host \<Rightarrow> 'n jsval \<Rightarrow> string \<Rightarrow> 'n jsval result" where
  "readProp h v k = (if isNullish v then Inl (msg_read_property h) else Inr (getProp h v k))"

text \<open>Collects the values of a list of results; the first error wins.\<close>

fun sequence :: "'a result list \<Rightarrow> 'a list result" where
  "sequence [] = Inr []"
| "sequence (r # rs) =
     (case r of Inl e \<Rightarrow> Inl e
      | Inr x \<Rightarrow> (case sequence rs of Inl e \<Rightarrow> Inl e | Inr xs \<Rightarrow> Inr (x # xs)))"

text \<open>
  \<^verbatim>\<open>String(v)\<close> and the template literal \<^verbatim>\<open>`${v}`\<close>. An array joins the strings
  of its elements with commas, \<^verbatim>\<open>null\<close> and \<^verbatim>\<open>undefined\<close> elements giving the empty
  string. A plain object gives \<^verbatim>\<open>[object Object]\<close>, unless it has an own property
  \<^verbatim>\<open>toString\<close>: that hides \<^verbatim>\<open>Object.prototype.toString\<close>, is not callable (it is
  data), \<^verbatim>\<open>valueOf\<close> gives no primitive, and the conversion throws a TypeError.
\<close>

fun toString :: "'n js_host \<Rightarrow> 'n jsval \<Rightarrow> string result" where
  "toString h Undefined = Inr ''undefined''"
| "toString h Null = Inr ''null''"
| "toString h (Bool b) = Inr (if b then ''true'' else ''false'')"
| "toString h (Num n) = Inr (num_to_string h n)"
| "toString h (Str s) = Inr s"
| "toString h (Arr xs) =
     (case sequence (map (\<lambda>x. if isNullish x then Inr [] else toString h x) xs) of
        Inl e \<Rightarrow> Inl e
      | Inr ps \<Rightarrow> Inr (join '','' ps))"
| "toString h (Obj fs) =
     (if map_of fs ''toString'' \<noteq> None then Inl (msg_to_primitive h)
      else Inr ''[object Object]'')"

text \<open>\<^verbatim>\<open>Number(v)\<close>.\<close>

fun toNumber :: "'n js_host \<Rightarrow> 'n jsval \<Rightarrow> 'n result" where
  "toNumber h Undefined = Inr (num_nan h)"
| "toNumber h Null = Inr (num_of_nat h 0)"
| "toNumber h (Bool b) = Inr (num_of_nat h (if b then 1 else 0))"
| "toNumber h (Num n) = Inr n"
| "toNumber h (Str s) = Inr (str_to_num h s)"
| "toNumber h v = (case toString h v of Inl e \<Rightarrow> Inl e | Inr s \<Rightarrow> Inr (str_to_num h s))"

text \<open>The own enumerable properties that the spread \<^verbatim>\<open>{...v}\<close> copies.\<close>

fun spreadFields :: "'n jsval \<Rightarrow> (string \<times> 'n jsval) list" where
  "spreadFields (Obj fs) = fs"
| "spreadFields (Arr xs) = map (\<lambda>i. (nat_to_string i, xs ! i)) [0 ..< length xs]"
| "spreadFields (Str s) = map (\<lambda>i. (nat_to_string i, Str [s ! i])) [0 ..< length s]"
| "spreadFields v = []"

text \<open>Setting a property of an object literal under construction.\<close>

fun setField :: "string \<Rightarrow> 'a \<Rightarrow> (string \<times> 'a) list \<Rightarrow> (string \<times> 'a) list" where
  "setField k v [] = [(k, v)]"
| "setField k v ((k', v') # fs) = (if k' = k then (k, v) # fs else (k', v') # setField k v fs)"


section \<open>Expression evaluator (ExpressionEvaluator.js)\<close>

subsection \<open>Replacement with context\<close>

text \<open>
  \<open>\b\<close> of a regular expression, between the text before a position and the text
  from it on: exactly one of the two neighbouring characters is a word character.
\<close>

definition wordBoundary :: "string \<Rightarrow> string \<Rightarrow> bool" where
  "wordBoundary pre post =
     ((pre \<noteq> [] \<and> isWordChar (last pre)) \<noteq> (post \<noteq> [] \<and> isWordChar (hd post)))"

text \<open>
  \<^verbatim>\<open>s.replace(/re/g, ...)\<close> for a pattern that looks behind itself: the matcher also
  receives the text before the position.
\<close>

fun replaceAllPre :: "(string \<Rightarrow> string \<Rightarrow> (nat \<times> string) option) \<Rightarrow> string \<Rightarrow> string \<Rightarrow> string" where
  "replaceAllPre m pre [] = []"
| "replaceAllPre m pre (c # cs) =
     (case m pre (c # cs) of
        Some (n, r) \<Rightarrow> r @ replaceAllPre m (pre @ c # take (n - 1) cs) (drop (n - 1) cs)
      | None \<Rightarrow> c # replaceAllPre m (pre @ [c]) cs)"

text \<open>
  The same with a callback that may throw: the first error, from the left, ends the
  replacement.
\<close>

fun replaceAllThrow ::
  "(string \<Rightarrow> string \<Rightarrow> (nat \<times> string result) option) \<Rightarrow> string \<Rightarrow> string \<Rightarrow> string result" where
  "replaceAllThrow m pre [] = Inr []"
| "replaceAllThrow m pre (c # cs) =
     (case m pre (c # cs) of
        Some (n, Inl e) \<Rightarrow> Inl e
      | Some (n, Inr r) \<Rightarrow>
          (case replaceAllThrow m (pre @ c # take (n - 1) cs) (drop (n - 1) cs) of
             Inl e \<Rightarrow> Inl e
           | Inr rest \<Rightarrow> Inr (r @ rest))
      | None \<Rightarrow>
          (case replaceAllThrow m (pre @ [c]) cs of
             Inl e \<Rightarrow> Inl e
           | Inr rest \<Rightarrow> Inr (c # rest)))"

text \<open>
  A replacement given as a string is a pattern: \<^verbatim>\<open>$$\<close> stands for a dollar sign, \<^verbatim>\<open>$&\<close>
  for the match, \<^verbatim>\<open>$`\<close> for the text before it and \<^verbatim>\<open>$'\<close> for the text behind it (the
  patterns here have no capture group, so \<^verbatim>\<open>$1\<close> stays as it is).
\<close>

fun expandReplacement :: "string \<Rightarrow> string \<Rightarrow> string \<Rightarrow> string \<Rightarrow> string" where
  "expandReplacement [] matched pre post = []"
| "expandReplacement [c] matched pre post = [c]"
| "expandReplacement (c # d # r) matched pre post =
     (if c = CHR ''$'' \<and> d = CHR ''$'' then CHR ''$'' # expandReplacement r matched pre post
      else if c = CHR ''$'' \<and> d = CHR ''&'' then matched @ expandReplacement r matched pre post
      else if c = CHR ''$'' \<and> d = CHR 0x60 then pre @ expandReplacement r matched pre post
      else if c = CHR ''$'' \<and> d = CHR 0x27 then post @ expandReplacement r matched pre post
      else c # expandReplacement (d # r) matched pre post)"

text \<open>\<^verbatim>\<open>s.replace(new RegExp('\\b' + w + '\\b', 'g'), repl)\<close> for a literal word \<open>w\<close>.\<close>

definition matchWord :: "string \<Rightarrow> string \<Rightarrow> string \<Rightarrow> string \<Rightarrow> (nat \<times> string) option" where
  "matchWord w repl pre s =
     (if w \<noteq> [] \<and> startsWith s w \<and> wordBoundary pre s
         \<and> wordBoundary (pre @ w) (drop (length w) s)
      then Some (length w, expandReplacement repl w pre (drop (length w) s))
      else None)"

definition replaceWord :: "string \<Rightarrow> string \<Rightarrow> string \<Rightarrow> string" where
  "replaceWord w repl s = replaceAllPre (matchWord w repl) [] s"

subsection \<open>Paths\<close>

definition isPathChar :: "char \<Rightarrow> bool" where
  "isPathChar c = (isWordChar c \<or> c \<in> set ''.$[]'')"

text \<open>\<^verbatim>\<open>/^[a-zA-Z_][a-zA-Z0-9_.$\[\]]*$/.test(s)\<close>.\<close>

definition isSimplePath :: "string \<Rightarrow> bool" where
  "isSimplePath s = (case s of [] \<Rightarrow> False | c # cs \<Rightarrow> isIdentStart c \<and> list_all isPathChar cs)"

text \<open>\<^verbatim>\<open>path.replace(/\[(\d+)\]/g, '.$1')\<close>.\<close>

definition matchBracketIndex :: "string \<Rightarrow> (nat \<times> string) option" where
  "matchBracketIndex s =
     (case s of
        [] \<Rightarrow> None
      | c # r \<Rightarrow>
          let d = takeWhile isDigit r in
          if c = CHR ''['' \<and> d \<noteq> [] \<and> startsWith (dropWhile isDigit r) '']''
          then Some (length d + 2, CHR ''.'' # d) else None)"

definition normalizeIndexPath :: "string \<Rightarrow> string" where
  "normalizeIndexPath path = replaceAll matchBracketIndex path"

text \<open>\<^verbatim>\<open>/^\d+$/.test(key)\<close>.\<close>

definition isIndexKey :: "string \<Rightarrow> bool" where
  "isIndexKey key = (key \<noteq> [] \<and> list_all isDigit key)"

text \<open>The loop over the keys in \<^verbatim>\<open>ExpressionEvaluator.getNestedProperty\<close>.\<close>

fun walkProperty :: "'n js_host \<Rightarrow> 'n jsval \<Rightarrow> string list \<Rightarrow> 'n jsval" where
  "walkProperty h current [] = current"
| "walkProperty h current (key # keys) =
     (if isNullish current then Null
      else if isIndexKey key then
        (case current of
           Arr xs \<Rightarrow> if digits_to_nat key < length xs
                     then walkProperty h (xs ! digits_to_nat key) keys else Null
         | _ \<Rightarrow> Null)
      else if getProp h current key \<noteq> Undefined then walkProperty h (getProp h current key) keys
      else Null)"

definition getNestedProperty :: "'n js_host \<Rightarrow> 'n jsval \<Rightarrow> string \<Rightarrow> 'n jsval" where
  "getNestedProperty h obj path =
     (if \<not> truthy h obj \<or> path = [] then Null
      else walkProperty h obj (splitOn CHR ''.'' (normalizeIndexPath path)))"

text \<open>The loop over the keys in \<^verbatim>\<open>ExpressionEvaluator.getNestedValue\<close>.\<close>

fun walkValue :: "'n js_host \<Rightarrow> 'n jsval \<Rightarrow> string list \<Rightarrow> 'n jsval" where
  "walkValue h current [] = current"
| "walkValue h current (key # keys) =
     (if isNullish current then Null
      else if key = ''this'' then
        (if getProp h current ''this'' \<noteq> Undefined
         then walkValue h (getProp h current ''this'') keys else Null)
      else if isIndexKey key then
        (case current of
           Arr xs \<Rightarrow> if digits_to_nat key < length xs
                     then walkValue h (xs ! digits_to_nat key) keys else Null
         | _ \<Rightarrow> Null)
      else if getProp h current key \<noteq> Undefined then walkValue h (getProp h current key) keys
      else Null)"

definition getNestedValue :: "'n js_host \<Rightarrow> 'n jsval \<Rightarrow> string \<Rightarrow> 'n jsval" where
  "getNestedValue h obj path =
     (if \<not> truthy h obj \<or> path = [] then Null
      else if startsWith path ''this.'' then
        (if truthy h (getProp h obj ''this'')
         then getNestedProperty h (getProp h obj ''this'') (drop 5 path) else Null)
      else walkValue h obj (splitOn CHR ''.'' (normalizeIndexPath path)))"

subsection \<open>Complex expressions\<close>

text \<open>\<^verbatim>\<open>value.replace(/"/g, '\\"')\<close>.\<close>

definition escapeQuotes :: "string \<Rightarrow> string" where
  "escapeQuotes s = concat (map (\<lambda>c. if c = dq then [CHR 0x5C, dq] else [c]) s)"

fun serializeValue :: "'n js_host \<Rightarrow> 'n jsval \<Rightarrow> string" where
  "serializeValue h Undefined = ''null''"
| "serializeValue h Null = ''null''"
| "serializeValue h (Str s) = [dq] @ escapeQuotes s @ [dq]"
| "serializeValue h (Num n) = num_to_string h n"
| "serializeValue h (Bool b) = (if b then ''true'' else ''false'')"
| "serializeValue h v = json_stringify h v"

text \<open>
  \<^verbatim>\<open>[...expression.matchAll(/\b([a-zA-Z_][a-zA-Z0-9_.$\[\]]*)\b/g)]\<close>: a match starts
  at a letter or underscore that does not follow a word character, runs over the
  path characters and gives back trailing characters until it ends in a word
  character.
\<close>

fun variableMatches :: "string \<Rightarrow> string \<Rightarrow> string list" where
  "variableMatches pre [] = []"
| "variableMatches pre (c # cs) =
     (if isIdentStart c \<and> wordBoundary pre (c # cs) then
        let m = rev (dropWhile (\<lambda>x. \<not> isWordChar x) (rev (takeWhile isPathChar (c # cs))))
        in m # variableMatches (pre @ c # take (length m - 1) cs) (drop (length m - 1) cs)
      else variableMatches (pre @ [c]) cs)"

definition isJavaScriptKeyword :: "string \<Rightarrow> bool" where
  "isJavaScriptKeyword w =
     (w \<in> set [''true'', ''false'', ''null'', ''undefined'', ''Math'', ''Date'', ''parseInt'',
                ''parseFloat'', ''isNaN'', ''isFinite'', ''typeof'', ''instanceof''])"

text \<open>
  \<^verbatim>\<open>safeEvaluate\<close>: the expression goes to the Function constructor of the engine;
  an error there is caught and gives \<^verbatim>\<open>null\<close>.
\<close>

definition safeEvaluate :: "'n js_host \<Rightarrow> string \<Rightarrow> 'n jsval" where
  "safeEvaluate h expression = (case run_function h expression of Some v \<Rightarrow> v | None \<Rightarrow> Null)"

text \<open>
  The matches are sorted by falling length (the sort is stable) and each one that is
  not a keyword is replaced, everywhere it stands as a word, by its serialized value.
\<close>

definition substituteVariables :: "'n js_host \<Rightarrow> string \<Rightarrow> 'n jsval \<Rightarrow> string" where
  "substituteVariables h expression data =
     foldl (\<lambda>processed variable.
              if isJavaScriptKeyword variable then processed
              else replaceWord variable (serializeValue h (getNestedValue h data variable)) processed)
       expression
       (sort_key (\<lambda>m. - int (length m)) (variableMatches [] expression))"

definition evaluateComplexExpression :: "'n js_host \<Rightarrow> string \<Rightarrow> 'n jsval \<Rightarrow> 'n jsval" where
  "evaluateComplexExpression h expression data =
     safeEvaluate h (substituteVariables h expression data)"

text \<open>
  \<^verbatim>\<open>evaluate\<close>. The logging line \<^verbatim>\<open>Object.keys(data)\<close> stands before the \<^verbatim>\<open>try\<close> and
  throws when the data is \<^verbatim>\<open>null\<close> or \<^verbatim>\<open>undefined\<close>. Nothing inside the \<^verbatim>\<open>try\<close> throws
  on the values of this model.
\<close>

definition evaluate :: "'n js_host \<Rightarrow> string \<Rightarrow> 'n jsval \<Rightarrow> 'n jsval result" where
  "evaluate h expression data =
     (if expression = [] then Inr Null
      else if isNullish data then Inl (msg_object_keys h)
      else if isSimplePath (trim expression) then Inr (getNestedValue h data (trim expression))
      else Inr (evaluateComplexExpression h expression data))"

definition normalizeCondition :: "string \<Rightarrow> string" where
  "normalizeCondition condition =
     replaceWord ''equals'' ''==''
       (replaceWord (''isn'' @ [CHR 0x27] @ ''t'') ''!=''
          (replaceWord ''is'' ''==''
             (replaceWord ''not'' ''!''
                (replaceWord ''or'' ''||''
                   (replaceWord ''and'' ''&&'' condition)))))"

text \<open>
  \<^verbatim>\<open>/\bthis\.([a-zA-Z_][a-zA-Z0-9_]*)\b/g\<close> with the callback of \<^verbatim>\<open>evaluateCondition\<close>.
  Reading \<^verbatim>\<open>data.this\<close> throws when the data is \<^verbatim>\<open>null\<close> or \<^verbatim>\<open>undefined\<close>.
\<close>

definition matchThisIdent :: "'n js_host \<Rightarrow> 'n jsval \<Rightarrow> string \<Rightarrow> string \<Rightarrow> (nat \<times> string result) option" where
  "matchThisIdent h data pre s =
     (let r = drop 5 s; property = takeWhile isWordChar r in
      if startsWith s ''this.'' \<and> wordBoundary pre s \<and> r \<noteq> [] \<and> isIdentStart (hd r) then
        Some (5 + length property,
          case readProp h data ''this'' of
            Inl e \<Rightarrow> Inl e
          | Inr this \<Rightarrow>
              if truthy h this \<and> getProp h this property \<noteq> Undefined
              then Inr (serializeValue h (getProp h this property))
              else Inr ''null'')
      else None)"

text \<open>\<^verbatim>\<open>evaluateCondition\<close>: an error inside is caught and gives \<^verbatim>\<open>false\<close>.\<close>

definition evaluateCondition :: "'n js_host \<Rightarrow> string \<Rightarrow> 'n jsval \<Rightarrow> 'n jsval" where
  "evaluateCondition h condition data =
     (case replaceAllThrow (matchThisIdent h data) [] (normalizeCondition condition) of
        Inl e \<Rightarrow> Bool False
      | Inr processedCondition \<Rightarrow> evaluateComplexExpression h processedCondition data)"


section \<open>Formatter pipeline (FormatHelper.applyFormatters)\<close>

text \<open>
  A formatter receives the value and the trimmed arguments (strings) that follow its
  name, and returns a value or throws. The registry is the \<^verbatim>\<open>Map\<close> held by the
  \<^verbatim>\<open>FormatHelper\<close>, which \<^verbatim>\<open>registerFormatter\<close> extends.
\<close>

type_synonym 'n formatter = "'n jsval \<Rightarrow> 'n jsval list \<Rightarrow> 'n jsval result"

type_synonym 'n registry = "string \<Rightarrow> 'n formatter option"

text \<open>
  One round of the loop over the formatter expressions: the state is \<^verbatim>\<open>result\<close> and
  the fields of \<^verbatim>\<open>formatting\<close>. An unknown name and a formatter that throws leave
  the state as it is.
\<close>

definition applyFormatter ::
  "'n js_host \<Rightarrow> 'n registry \<Rightarrow> 'n jsval \<times> (string \<times> 'n jsval) list \<Rightarrow> string
     \<Rightarrow> 'n jsval \<times> (string \<times> 'n jsval) list" where
  "applyFormatter h reg state formatterExpr =
     (let parts = splitOn CHR '':'' formatterExpr;
          name = hd parts;
          args = map (\<lambda>arg. Str (trim arg)) (tl parts)
      in case reg (trim name) of
           None \<Rightarrow> state
         | Some formatter \<Rightarrow>
             (case formatter (fst state) args of
                Inl e \<Rightarrow> state
              | Inr formattedResult \<Rightarrow>
                  if truthy h formattedResult \<and> typeofObject formattedResult
                     \<and> truthy h (getProp h formattedResult ''format'')
                  then (getProp h formattedResult ''value'',
                        foldl (\<lambda>fs kv. setField (fst kv) (snd kv) fs) (snd state)
                          (spreadFields (getProp h formattedResult ''format'')))
                  else (formattedResult, snd state)))"

definition applyFormatters :: "'n js_host \<Rightarrow> 'n registry \<Rightarrow> 'n jsval \<Rightarrow> string list \<Rightarrow> 'n jsval" where
  "applyFormatters h reg v formatters =
     (let final = foldl (applyFormatter h reg) (v, []) formatters
      in if snd final \<noteq> [] then Obj [(''value'', fst final), (''formatting'', Obj (snd final))]
         else fst final)"

section \<open>Template engine (TemplateEngine)\<close>

subsection \<open>Interpolation\<close>

definition replaceChar :: "char \<Rightarrow> string \<Rightarrow> string \<Rightarrow> string" where
  "replaceChar c r s = concat (map (\<lambda>x. if x = c then r else [x]) s)"

definition escapeXml :: "string \<Rightarrow> string" where
  "escapeXml text =
     replaceChar (CHR 0x27) ''&apos;''
       (replaceChar dq ''&quot;''
          (replaceChar CHR ''>'' ''&gt;''
             (replaceChar CHR ''<'' ''&lt;''
                (replaceChar CHR ''&'' ''&amp;'' text))))"

text \<open>\<^verbatim>\<open>/\$\{([^}]+)\}/g\<close> with a callback that receives the match and the expression.\<close>

definition matchVariable :: "(string \<Rightarrow> string \<Rightarrow> string) \<Rightarrow> string \<Rightarrow> (nat \<times> string) option" where
  "matchVariable callback s =
     (let expression = takeWhile (\<lambda>c. c \<noteq> CHR ''}'') (drop 2 s) in
      if startsWith s ''${'' \<and> expression \<noteq> []
         \<and> dropWhile (\<lambda>c. c \<noteq> CHR ''}'') (drop 2 s) \<noteq> []
      then Some (length expression + 3, callback (take (length expression + 3) s) expression)
      else None)"

definition errorMarker :: "string \<Rightarrow> string" where
  "errorMarker expression = ''[ERROR: '' @ expression @ '']''"

text \<open>\<^verbatim>\<open>v || ''\<close>.\<close>

definition orEmpty :: "'n js_host \<Rightarrow> 'n jsval \<Rightarrow> 'n jsval" where
  "orEmpty h v = (if truthy h v then v else Str [])"

text \<open>
  The end of the interpolation callbacks of \<^verbatim>\<open>processRemainingVariables\<close> and
  \<^verbatim>\<open>processRegularVariables\<close>: a value with formatting gives its \<^verbatim>\<open>value\<close> field.
\<close>

definition emitValue :: "'n js_host \<Rightarrow> 'n jsval \<Rightarrow> string result" where
  "emitValue h v =
     (case (if truthy h v \<and> typeofObject v \<and> truthy h (getProp h v ''formatting'')
            then toString h (orEmpty h (getProp h v ''value''))
            else toString h (orEmpty h v)) of
        Inl e \<Rightarrow> Inl e
      | Inr s \<Rightarrow> Inr (escapeXml s))"

text \<open>The callback of \<^verbatim>\<open>processRemainingVariables\<close>; its \<^verbatim>\<open>catch\<close> gives the error marker.\<close>

definition remainingVariable ::
  "'n js_host \<Rightarrow> 'n registry \<Rightarrow> 'n jsval \<Rightarrow> string \<Rightarrow> string \<Rightarrow> string" where
  "remainingVariable h reg data match expression =
     (if includesStr expression ''#each'' \<or> includesStr expression ''#if''
         \<or> includesStr expression ''/each'' \<or> includesStr expression ''/if''
      then match
      else let parts = splitOn CHR ''|'' expression;
               varPath = trim (hd parts);
               formatters = map trim (tl parts)
           in if startsWith varPath ''this.'' then []
              else case evaluate h varPath data of
                     Inl e \<Rightarrow> errorMarker expression
                   | Inr v \<Rightarrow>
                       (case emitValue h (if formatters \<noteq> [] then applyFormatters h reg v formatters else v) of
                          Inl e \<Rightarrow> errorMarker expression
                        | Inr s \<Rightarrow> s))"

definition processRemainingVariables ::
  "'n js_host \<Rightarrow> 'n registry \<Rightarrow> string \<Rightarrow> 'n jsval \<Rightarrow> string" where
  "processRemainingVariables h reg xml data =
     replaceAll (matchVariable (remainingVariable h reg data)) xml"

subsection \<open>Conditions\<close>

text \<open>
  \<^verbatim>\<open>/\$\{#if\s+([^}]+)\}([\s\S]*?)(?:\$\{#else\}([\s\S]*?))?\$\{\/if\}/\<close> at the start
  of \<open>s\<close>: the length of the match, the condition, the content of the first branch
  and the content of the second (empty when there is no \<^verbatim>\<open>${#else}\<close>). The white
  space after \<^verbatim>\<open>#if\<close> is taken whole, unless nothing but white space stands before
  the brace: then its last character is the condition. The block ends at the first
  \<^verbatim>\<open>${/if}\<close>, and the first \<^verbatim>\<open>${#else}\<close> before it splits the block.
\<close>

definition matchIfBlock :: "string \<Rightarrow> (nat \<times> string \<times> string \<times> string) option" where
  "matchIfBlock s =
     (let r = drop 5 s;
          w = takeWhile isSpace r;
          c = takeWhile (\<lambda>x. x \<noteq> CHR ''}'') (dropWhile isSpace r);
          t = dropWhile (\<lambda>x. x \<noteq> CHR ''}'') (dropWhile isSpace r);
          condition = (if c \<noteq> [] then c else drop (length w - 1) w);
          body = drop 1 t
      in if \<not> startsWith s ''${#if'' \<or> w = [] \<or> (c = [] \<and> length w < 2) \<or> t = []
         then None
         else case indexOf body ''${/if}'' of
                None \<Rightarrow> None
              | Some e \<Rightarrow>
                  (case indexOf (take e body) ''${#else}'' of
                     Some p \<Rightarrow>
                       Some (5 + length w + length c + 1 + e + 6, condition,
                             take p body, drop (p + 8) (take e body))
                   | None \<Rightarrow>
                       Some (5 + length w + length c + 1 + e + 6, condition, take e body, [])))"

definition matchCondition :: "(string \<Rightarrow> string \<Rightarrow> string \<Rightarrow> string) \<Rightarrow> string \<Rightarrow> (nat \<times> string) option" where
  "matchCondition callback s =
     (case matchIfBlock s of
        None \<Rightarrow> None
      | Some (n, condition, ifContent, elseContent) \<Rightarrow>
          Some (n, callback condition ifContent elseContent))"

text \<open>
  \<^verbatim>\<open>/\bthis\.(\w+)/g\<close> with the callback of \<^verbatim>\<open>processConditions\<close>: a string value is
  put between double quotes, any other value is converted with \<^verbatim>\<open>String\<close>.
\<close>

definition matchThisWord :: "'n js_host \<Rightarrow> 'n jsval \<Rightarrow> string \<Rightarrow> string \<Rightarrow> (nat \<times> string result) option" where
  "matchThisWord h data pre s =
     (let r = drop 5 s; p = takeWhile isWordChar r in
      if startsWith s ''this.'' \<and> wordBoundary pre s \<and> p \<noteq> [] then
        Some (5 + length p,
          case readProp h data ''this'' of
            Inl e \<Rightarrow> Inl e
          | Inr this \<Rightarrow>
              if truthy h this \<and> getProp h this p \<noteq> Undefined
              then (case getProp h this p of
                      Str v \<Rightarrow> Inr ([dq] @ v @ [dq])
                    | v \<Rightarrow> toString h v)
              else Inr ''null'')
      else None)"

text \<open>
  The callback of \<^verbatim>\<open>processConditions\<close>. Its \<^verbatim>\<open>catch\<close> shows the first branch
  (``default to showing content on error'').
\<close>

definition conditionBranch :: "'n js_host \<Rightarrow> 'n jsval \<Rightarrow> string \<Rightarrow> string \<Rightarrow> string \<Rightarrow> string" where
  "conditionBranch h data condition ifContent elseContent =
     (case replaceAllThrow (matchThisWord h data) [] condition of
        Inl e \<Rightarrow> ifContent
      | Inr processedCondition \<Rightarrow>
          if truthy h (evaluateCondition h processedCondition data) then ifContent else elseContent)"

definition processConditions :: "'n js_host \<Rightarrow> string \<Rightarrow> 'n jsval \<Rightarrow> string" where
  "processConditions h xml data = replaceAll (matchCondition (conditionBranch h data)) xml"


subsection \<open>Conditions and variables inside a loop\<close>

text \<open>\<^verbatim>\<open>/^-?\d+\.?\d*$/.test(s)\<close>.\<close>

definition isNumberLiteral :: "string \<Rightarrow> bool" where
  "isNumberLiteral s =
     (let u = (if startsWith s ''-'' then tl s else s);
          r = dropWhile isDigit u
      in takeWhile isDigit u \<noteq> [] \<and> list_all isDigit (if startsWith r ''.'' then tl r else r))"

definition parseValue :: "'n js_host \<Rightarrow> string \<Rightarrow> 'n jsval" where
  "parseValue h str =
     (let trimmed = trim str in
      if isNumberLiteral trimmed then Num (parse_float h trimmed)
      else if (startsWith trimmed [dq] \<and> endsWith trimmed [dq])
              \<or> (startsWith trimmed [CHR 0x27] \<and> endsWith trimmed [CHR 0x27])
           then Str (butlast (tl trimmed))
      else if trimmed = ''true'' then Bool True
      else if trimmed = ''false'' then Bool False
      else if trimmed = ''null'' then Null
      else Str trimmed)"

text \<open>
  The comparison operators of JavaScript on the values \<^verbatim>\<open>parseValue\<close> returns
  (numbers, strings, booleans and \<^verbatim>\<open>null\<close>): two strings compare by their
  characters, anything else by its number.
\<close>

definition primNumber :: "'n js_host \<Rightarrow> 'n jsval \<Rightarrow> 'n" where
  "primNumber h v = (case toNumber h v of Inr n \<Rightarrow> n | Inl e \<Rightarrow> num_nan h)"

fun stringLess :: "string \<Rightarrow> string \<Rightarrow> bool" where
  "stringLess [] [] = False"
| "stringLess [] (b # bs) = True"
| "stringLess (a # as) [] = False"
| "stringLess (a # as) (b # bs) =
     (of_char a < (of_char b :: nat) \<or> (a = b \<and> stringLess as bs))"

definition jsLess :: "'n js_host \<Rightarrow> 'n jsval \<Rightarrow> 'n jsval \<Rightarrow> bool" where
  "jsLess h a b =
     (case (a, b) of
        (Str x, Str y) \<Rightarrow> stringLess x y
      | _ \<Rightarrow> num_lt h (primNumber h a) (primNumber h b))"

definition jsLessEq :: "'n js_host \<Rightarrow> 'n jsval \<Rightarrow> 'n jsval \<Rightarrow> bool" where
  "jsLessEq h a b =
     (case (a, b) of
        (Str x, Str y) \<Rightarrow> \<not> stringLess y x
      | _ \<Rightarrow> num_le h (primNumber h a) (primNumber h b))"

definition jsLooseEq :: "'n js_host \<Rightarrow> 'n jsval \<Rightarrow> 'n jsval \<Rightarrow> bool" where
  "jsLooseEq h a b =
     (case (a, b) of
        (Null, Null) \<Rightarrow> True
      | (Null, _) \<Rightarrow> False
      | (_, Null) \<Rightarrow> False
      | (Str x, Str y) \<Rightarrow> x = y
      | (Bool x, Bool y) \<Rightarrow> x = y
      | _ \<Rightarrow> num_eq h (primNumber h a) (primNumber h b))"

text \<open>
  The right end of \<^verbatim>\<open>/^(.+?)\s*(>=|<=|==|!=|>|<)\s*(.+?)$/\<close>: after the operator,
  white space and then at least one character up to the end, none of them a line
  terminator. The result is the third group.
\<close>

definition matchRightOperand :: "string \<Rightarrow> string option" where
  "matchRightOperand r =
     (let t = dropWhile isSpace r in
      if t \<noteq> [] then (if list_all (\<lambda>c. \<not> isLineTerminator c) t then Some t else None)
      else if r \<noteq> [] \<and> \<not> isLineTerminator (last r) then Some [last r]
      else None)"

text \<open>The operators in the order of the alternation, tried at the start of \<open>t\<close>.\<close>

fun matchOperator :: "string list \<Rightarrow> string \<Rightarrow> (string \<times> string) option" where
  "matchOperator [] t = None"
| "matchOperator (operator # ops) t =
     (if startsWith t operator then
        (case matchRightOperand (drop (length operator) t) of
           Some right \<Rightarrow> Some (operator, right)
         | None \<Rightarrow> matchOperator ops t)
      else matchOperator ops t)"

text \<open>
  The whole pattern: the first group grows one character at a time, from one
  character on, until the rest matches; it cannot take a line terminator.
\<close>

fun matchComparison :: "string \<Rightarrow> string \<Rightarrow> (string \<times> string \<times> string) option" where
  "matchComparison left [] = None"
| "matchComparison left (c # cs) =
     (if isLineTerminator c then None
      else case matchOperator [''>='', ''<='', ''=='', ''!='', ''>'', ''<''] (dropWhile isSpace cs) of
             Some (operator, right) \<Rightarrow> Some (left @ [c], operator, right)
           | None \<Rightarrow> matchComparison (left @ [c]) cs)"

text \<open>
  \<^verbatim>\<open>/\bthis\.([a-zA-Z0-9_.]+)\b/g\<close> with the callback of \<^verbatim>\<open>evaluateConditionInLoop\<close>:
  the path runs over word characters and dots and gives back its trailing dots.
\<close>

definition matchThisPath :: "'n js_host \<Rightarrow> 'n jsval \<Rightarrow> string \<Rightarrow> string \<Rightarrow> (nat \<times> string result) option" where
  "matchThisPath h data pre s =
     (let run = takeWhile (\<lambda>c. isWordChar c \<or> c = CHR ''.'') (drop 5 s);
          propertyPath = rev (dropWhile (\<lambda>c. c = CHR ''.'') (rev run))
      in if startsWith s ''this.'' \<and> wordBoundary pre s \<and> propertyPath \<noteq> [] then
           Some (5 + length propertyPath,
             case readProp h data ''this'' of
               Inl e \<Rightarrow> Inl e
             | Inr this \<Rightarrow>
                 if truthy h this \<and> \<not> isNullish (getNestedValue h this propertyPath)
                 then (case getNestedValue h this propertyPath of
                         Str v \<Rightarrow> Inr ([dq] @ v @ [dq])
                       | v \<Rightarrow> toString h v)
                 else Inr ''null'')
         else None)"

definition evaluateConditionInLoop :: "'n js_host \<Rightarrow> string \<Rightarrow> 'n jsval \<Rightarrow> bool result" where
  "evaluateConditionInLoop h condition data =
     (case replaceAllThrow (matchThisPath h data) [] condition of
        Inl e \<Rightarrow> Inl e
      | Inr processedCondition \<Rightarrow>
          (case matchComparison [] processedCondition of
             Some (left, operator, right) \<Rightarrow>
               (let leftVal = parseValue h (trim left); rightVal = parseValue h (trim right) in
                Inr (if operator = ''>='' then jsLessEq h rightVal leftVal
                     else if operator = ''<='' then jsLessEq h leftVal rightVal
                     else if operator = ''>'' then jsLess h rightVal leftVal
                     else if operator = ''<'' then jsLess h leftVal rightVal
                     else if operator = ''=='' then jsLooseEq h leftVal rightVal
                     else \<not> jsLooseEq h leftVal rightVal))
           | None \<Rightarrow> Inr (truthy h (parseValue h processedCondition))))"

definition conditionBranchInLoop :: "'n js_host \<Rightarrow> 'n jsval \<Rightarrow> string \<Rightarrow> string \<Rightarrow> string \<Rightarrow> string" where
  "conditionBranchInLoop h data condition ifContent elseContent =
     (case evaluateConditionInLoop h condition data of
        Inl e \<Rightarrow> ifContent
      | Inr result \<Rightarrow> if result then ifContent else elseContent)"

definition processConditionsInLoop :: "'n js_host \<Rightarrow> string \<Rightarrow> 'n jsval \<Rightarrow> string" where
  "processConditionsInLoop h xml data = replaceAll (matchCondition (conditionBranchInLoop h data)) xml"

text \<open>
  The loop over the keys in \<^verbatim>\<open>TemplateEngine.getNestedProperty\<close>: a missing property
  makes the current value \<^verbatim>\<open>undefined\<close>.
\<close>

fun walkPropertyLoose :: "'n js_host \<Rightarrow> 'n jsval \<Rightarrow> string list \<Rightarrow> 'n jsval" where
  "walkPropertyLoose h current [] = current"
| "walkPropertyLoose h current (key # keys) =
     (if isNullish current then Null
      else if isIndexKey key then
        (case current of
           Arr xs \<Rightarrow> if digits_to_nat key < length xs
                     then walkPropertyLoose h (xs ! digits_to_nat key) keys else Null
         | _ \<Rightarrow> Null)
      else walkPropertyLoose h (getProp h current key) keys)"

definition getNestedPropertyLoose :: "'n js_host \<Rightarrow> 'n jsval \<Rightarrow> string \<Rightarrow> 'n jsval" where
  "getNestedPropertyLoose h obj path =
     (if \<not> truthy h obj \<or> path = [] then Null
      else walkPropertyLoose h obj (splitOn CHR ''.'' (normalizeIndexPath path)))"

text \<open>
  The callback of \<^verbatim>\<open>processVariablesInLoop\<close>. A value that is neither \<^verbatim>\<open>undefined\<close>
  nor \<^verbatim>\<open>null\<close> is printed, whatever its truth value.
\<close>

definition loopVariable ::
  "'n js_host \<Rightarrow> 'n registry \<Rightarrow> 'n jsval \<Rightarrow> string \<Rightarrow> string \<Rightarrow> string" where
  "loopVariable h reg data match expression =
     (if startsWith (trim expression) ''#each'' \<or> startsWith (trim expression) ''#if''
         \<or> startsWith (trim expression) ''/each'' \<or> startsWith (trim expression) ''/if''
      then match
      else let parts = splitOn CHR ''|'' expression;
               varPath = trim (hd parts);
               formatters = map trim (tl parts);
               looked =
                 (if startsWith varPath ''this.'' then
                    (case readProp h data ''this'' of
                       Inl e \<Rightarrow> Inl e
                     | Inr this \<Rightarrow> Inr (getNestedPropertyLoose h this (drop 5 varPath)))
                  else if varPath \<in> set [''this'', ''index'', ''first'', ''last'', ''count'']
                       then readProp h data varPath
                  else evaluate h varPath data)
           in case looked of
                Inl e \<Rightarrow> errorMarker expression
              | Inr v \<Rightarrow>
                  (let value = (if formatters \<noteq> [] then applyFormatters h reg v formatters else v) in
                   case (if truthy h value \<and> typeofObject value \<and> truthy h (getProp h value ''formatting'')
                         then toString h (orEmpty h (getProp h value ''value''))
                         else toString h (if isNullish value then Str [] else value)) of
                     Inl e \<Rightarrow> errorMarker expression
                   | Inr s \<Rightarrow> escapeXml s))"

definition processVariablesInLoop ::
  "'n js_host \<Rightarrow> 'n registry \<Rightarrow> string \<Rightarrow> 'n jsval \<Rightarrow> string" where
  "processVariablesInLoop h reg xml data =
     replaceAll (matchVariable (loopVariable h reg data)) xml"

subsection \<open>Loops\<close>

text \<open>
  The inner \<^verbatim>\<open>while (depth > 0 && currentIndex < resultXml.length)\<close> of
  \<^verbatim>\<open>processLoops\<close>, which looks for the balanced \<^verbatim>\<open>${/each}\<close>: the result is
  \<^verbatim>\<open>closeIndex\<close>, \<open>None\<close> for \<open>-1\<close>.
\<close>

function findClose :: "string \<Rightarrow> nat \<Rightarrow> nat \<Rightarrow> nat option" where
  "findClose resultXml depth currentIndex =
     (if depth > 0 \<and> currentIndex < length resultXml then
        (case indexOf (drop currentIndex resultXml) ''${/each}'' of
           None \<Rightarrow> None
         | Some nextClose \<Rightarrow>
             (case indexOf (drop currentIndex resultXml) ''${#each '' of
                None \<Rightarrow>
                  if depth - 1 = 0 then Some (currentIndex + nextClose)
                  else findClose resultXml (depth - 1) (currentIndex + nextClose + 1)
              | Some nextOpen \<Rightarrow>
                  if nextOpen < nextClose
                  then findClose resultXml (depth + 1) (currentIndex + nextOpen + 1)
                  else if depth - 1 = 0 then Some (currentIndex + nextClose)
                  else findClose resultXml (depth - 1) (currentIndex + nextClose + 1)))
      else None)"
  by pat_completeness auto
termination
  by (relation "measure (\<lambda>(resultXml, depth, currentIndex). length resultXml - currentIndex)") auto

declare findClose.simps [simp del]

text \<open>The trimming of one line break at each end of the loop content.\<close>

definition trimContent :: "string \<Rightarrow> string" where
  "trimContent content =
     (let c1 = (if startsWith content [CHR 0x0A] then drop 1 content
                else if startsWith content [CHR 0x0D, CHR 0x0A] then drop 2 content
                else content)
      in if endsWith c1 [CHR 0x0A] then take (length c1 - 1) c1
         else if endsWith c1 [CHR 0x0D, CHR 0x0A] then take (length c1 - 2) c1
         else c1)"

text \<open>
  The object \<^verbatim>\<open>contextData\<close> built for one item: the properties of the data, then
  the loop bindings.
\<close>

definition contextData :: "'n js_host \<Rightarrow> 'n jsval \<Rightarrow> 'n jsval \<Rightarrow> nat \<Rightarrow> nat \<Rightarrow> 'n jsval" where
  "contextData h data item index count =
     Obj (foldl (\<lambda>fs kv. setField (fst kv) (snd kv) fs) (spreadFields data)
            [(''this'', item),
             (''parent'', getProp h data ''this''),
             (''_parentContext'', data),
             (''index'', Num (num_of_nat h index)),
             (''first'', Bool (index = 0)),
             (''last'', Bool (index = count - 1)),
             (''count'', Num (num_of_nat h count))])"


text \<open>Bounds on the positions found, for the termination of the loop expansion.\<close>

lemma startsWith_length: "startsWith s q \<Longrightarrow> length q \<le> length s"
  by (induction s q rule: startsWith.induct) auto

lemma indexOf_bound: "indexOf s p = Some i \<Longrightarrow> i + length p \<le> length s"
proof (induction s arbitrary: i)
  case Nil
  then show ?case by (simp split: if_splits)
next
  case (Cons c cs)
  show ?case
  proof (cases "startsWith (c # cs) p")
    case True
    with Cons.prems startsWith_length [of "c # cs" p] show ?thesis by simp
  next
    case False
    with Cons show ?thesis by auto
  qed
qed

lemma indexOfFrom_bound:
  assumes "indexOfFrom s p k = Some i" and "p \<noteq> []"
  shows "k \<le> i \<and> i + length p \<le> length s"
proof -
  from assms(1) obtain z where z: "indexOf (drop k s) p = Some z" and i: "i = k + z"
    by (auto simp: indexOfFrom_def)
  from indexOf_bound [OF z] have "z + length p \<le> length s - k" by simp
  moreover from assms(2) have "1 \<le> length p" by (cases p) simp_all
  ultimately show ?thesis using i by arith
qed

lemma findClose_bound:
  "findClose s d c = Some i \<Longrightarrow> c \<le> i \<and> i + 8 \<le> length s"
proof (induction s d c rule: findClose.induct)
  case (1 resultXml depth currentIndex)
  from "1.prems" have guard: "depth > 0" "currentIndex < length resultXml"
    by (subst (asm) findClose.simps, simp split: if_splits)+
  from "1.prems" guard obtain nextClose
    where nc: "indexOf (drop currentIndex resultXml) ''${/each}'' = Some nextClose"
    by (subst (asm) findClose.simps) (auto split: option.splits)
  from indexOf_bound [OF nc] guard have ncb: "currentIndex + nextClose + 8 \<le> length resultXml"
    by simp
  show ?case
  proof (cases "indexOf (drop currentIndex resultXml) ''${#each ''")
    case None
    show ?thesis
    proof (cases "depth - 1 = 0")
      case True
      with "1.prems" guard nc None have "i = currentIndex + nextClose"
        by (subst (asm) findClose.simps) simp
      with ncb show ?thesis by simp
    next
      case False
      with "1.prems" guard nc None
      have "findClose resultXml (depth - 1) (currentIndex + nextClose + 1) = Some i"
        by (subst (asm) findClose.simps) simp
      with "1.IH"(1) [OF _ nc None False] guard show ?thesis by simp
    qed
  next
    case (Some nextOpen)
    show ?thesis
    proof (cases "nextOpen < nextClose")
      case True
      with "1.prems" guard nc Some
      have "findClose resultXml (depth + 1) (currentIndex + nextOpen + 1) = Some i"
        by (subst (asm) findClose.simps) simp
      with "1.IH"(2) [OF _ nc Some True] guard show ?thesis by simp
    next
      case nlt: False
      show ?thesis
      proof (cases "depth - 1 = 0")
        case True
        with "1.prems" guard nc Some nlt have "i = currentIndex + nextClose"
          by (subst (asm) findClose.simps) simp
        with ncb show ?thesis by simp
      next
        case False
        with "1.prems" guard nc Some nlt
        have "findClose resultXml (depth - 1) (currentIndex + nextClose + 1) = Some i"
          by (subst (asm) findClose.simps) simp
        with "1.IH"(3) [OF _ nc Some nlt False] guard show ?thesis by simp
      qed
    qed
  qed
qed

lemma length_trimContent: "length (trimContent c) \<le> length c"
  by (simp add: trimContent_def Let_def)

text \<open>
  The outer \<^verbatim>\<open>while (true)\<close> of \<^verbatim>\<open>processLoops\<close> on its state \<^verbatim>\<open>resultXml\<close> and
  \<^verbatim>\<open>startIndex\<close>. The items are rendered by \<^verbatim>\<open>arrayData.map\<close> and joined with a
  line feed. An error thrown while the loop is evaluated is caught and gives the
  loop's error text.
\<close>

function processLoopsFrom ::
  "'n js_host \<Rightarrow> 'n registry \<Rightarrow> string \<Rightarrow> 'n jsval \<Rightarrow> nat \<Rightarrow> string" where
  "processLoopsFrom h reg resultXml data startIndex =
     (case indexOfFrom resultXml ''${#each '' startIndex of
        None \<Rightarrow> resultXml
      | Some openIndex \<Rightarrow>
          (case indexOfFrom resultXml ''}'' openIndex of
             None \<Rightarrow> resultXml
           | Some openTagEndIndex \<Rightarrow>
               (case findClose resultXml 1 (openTagEndIndex + 1) of
                  None \<Rightarrow> processLoopsFrom h reg resultXml data (openTagEndIndex + 1)
                | Some closeIndex \<Rightarrow>
                    (let arrayPath = trim (take (openTagEndIndex - (openIndex + 8)) (drop (openIndex + 8) resultXml));
                         content = trimContent (take (closeIndex - (openTagEndIndex + 1)) (drop (openTagEndIndex + 1) resultXml));
                         loopResult =
                           (case evaluate h arrayPath data of
                              Inl e \<Rightarrow> ''[ERROR: Loop '' @ arrayPath @ '' - '' @ e @ '']''
                            | Inr (Arr arrayData) \<Rightarrow>
                                join [CHR 0x0A]
                                  (map (\<lambda>index.
                                          processVariablesInLoop h reg
                                            (processConditionsInLoop h
                                               (processLoopsFrom h reg content
                                                  (contextData h data (arrayData ! index) index (length arrayData)) 0)
                                               (contextData h data (arrayData ! index) index (length arrayData)))
                                            (contextData h data (arrayData ! index) index (length arrayData)))
                                     [0 ..< length arrayData])
                            | Inr v \<Rightarrow> []);
                         beforeLoop = take openIndex resultXml;
                         afterLoop = drop (closeIndex + 8) resultXml
                     in processLoopsFrom h reg (beforeLoop @ loopResult @ afterLoop) data
                          (length beforeLoop + length loopResult)))))"
  by pat_completeness auto
termination
proof (relation "measure (\<lambda>(h, reg, resultXml, data, startIndex). length resultXml - startIndex)",
    goal_cases)
  case 1
  show ?case by simp
next
  case (2 h reg resultXml data startIndex openIndex openTagEndIndex)
  from indexOfFrom_bound [OF 2(1)] indexOfFrom_bound [OF 2(2)]
  have "startIndex \<le> openTagEndIndex \<and> openTagEndIndex < length resultXml" by simp
  then show ?case by simp arith
next
  case (3 h reg resultXml data startIndex openIndex openTagEndIndex closeIndex arrayPath content)
  from indexOfFrom_bound [OF 3(1)] indexOfFrom_bound [OF 3(2)] findClose_bound [OF 3(3)]
  have b: "startIndex \<le> openTagEndIndex \<and> openTagEndIndex < closeIndex
      \<and> closeIndex + 8 \<le> length resultXml" by simp
  from 3(5) have "length content \<le> closeIndex - (openTagEndIndex + 1)"
    using length_trimContent [of "take (closeIndex - (openTagEndIndex + 1)) (drop (openTagEndIndex + 1) resultXml)"]
    by simp
  with b have "length content < length resultXml - startIndex" by arith
  then show ?case by simp
next
  case (4 h reg resultXml data startIndex openIndex openTagEndIndex closeIndex arrayPath content
      loopResult beforeLoop afterLoop)
  from indexOfFrom_bound [OF 4(1)] indexOfFrom_bound [OF 4(2)] findClose_bound [OF 4(3)]
  have "startIndex \<le> closeIndex \<and> closeIndex + 8 \<le> length resultXml" by simp
  moreover from 4 have "length afterLoop = length resultXml - (closeIndex + 8)" by simp
  ultimately have "length afterLoop < length resultXml - startIndex" by arith
  then show ?case by simp
qed

declare processLoopsFrom.simps [simp del]

definition processLoops :: "'n js_host \<Rightarrow> 'n registry \<Rightarrow> string \<Rightarrow> 'n jsval \<Rightarrow> string" where
  "processLoops h reg xml data = processLoopsFrom h reg xml data 0"


text \<open>
  The callback of \<^verbatim>\<open>arrayData.map\<close> in \<^verbatim>\<open>processLoops\<close>, for the item at \<open>index\<close>:
  nested loops first, then the conditions, then the variables, each with the item's
  context.
\<close>

definition renderItem ::
  "'n js_host \<Rightarrow> 'n registry \<Rightarrow> string \<Rightarrow> 'n jsval \<Rightarrow> 'n jsval list \<Rightarrow> nat \<Rightarrow> string" where
  "renderItem h reg content data arrayData index =
     (let contextData = contextData h data (arrayData ! index) index (length arrayData) in
      processVariablesInLoop h reg
        (processConditionsInLoop h (processLoops h reg content contextData) contextData)
        contextData)"

subsection \<open>Empty table rows (TemplateEngine.removeEmptyControlRows)\<close>

text \<open>
  The regular expressions of this function are sequences of pieces, each of which
  can match in one way only: a literal; \<^verbatim>\<open>\s*\<close> before a literal that starts with
  \<^verbatim>\<open><\<close>; \<^verbatim>\<open>[^>]*>\<close>; and \<^verbatim>\<open>[^<]*\<close> before a literal that starts with \<^verbatim>\<open><\<close>. Matching
  a piece gives the text behind it.
\<close>

datatype piece = Lit string | Spaces | UpToGt | Text

fun matchPiece :: "piece \<Rightarrow> string \<Rightarrow> string option" where
  "matchPiece (Lit l) s = (if startsWith s l then Some (drop (length l) s) else None)"
| "matchPiece Spaces s = Some (dropWhile isSpace s)"
| "matchPiece UpToGt s =
     (case dropWhile (\<lambda>c. c \<noteq> CHR ''>'') s of [] \<Rightarrow> None | c # rest \<Rightarrow> Some rest)"
| "matchPiece Text s = Some (dropWhile (\<lambda>c. c \<noteq> CHR ''<'') s)"

fun matchPieces :: "piece list \<Rightarrow> string \<Rightarrow> string option" where
  "matchPieces [] s = Some s"
| "matchPieces (p # ps) s =
     (case matchPiece p s of None \<Rightarrow> None | Some r \<Rightarrow> matchPieces ps r)"

text \<open>A match that is replaced by the empty string: its length is what was consumed.\<close>

definition removing :: "(string \<Rightarrow> string option) \<Rightarrow> string \<Rightarrow> (nat \<times> string) option" where
  "removing f s = (case f s of None \<Rightarrow> None | Some rest \<Rightarrow> Some (length s - length rest, []))"

text \<open>\<^verbatim>\<open><w:tr[^>]*>\<close>, the start of all three patterns.\<close>

definition rowOpen :: "piece list" where
  "rowOpen = [Lit ''<w:tr'', UpToGt]"

text \<open>
  \<^verbatim>\<open>\s*<w:tc[^>]*>\s*<w:p[^>]*>\s*<w:t[^>]*>\s*<\/w:t>\s*<\/w:p>\s*<\/w:tc>\s*\<close>, one
  empty cell.
\<close>

definition emptyCell :: "piece list" where
  "emptyCell =
     [Spaces, Lit ''<w:tc'', UpToGt, Spaces, Lit ''<w:p'', UpToGt, Spaces, Lit ''<w:t'', UpToGt,
      Spaces, Lit ''</w:t>'', Spaces, Lit ''</w:p>'', Spaces, Lit ''</w:tc>'', Spaces]"

definition emptyControlRowPattern :: "string \<Rightarrow> string option" where
  "emptyControlRowPattern = matchPieces (rowOpen @ emptyCell @ [Lit ''</w:tr>''])"

lemma matchPiece_length: "matchPiece p s = Some r \<Longrightarrow> length r \<le> length s"
proof (cases p)
  case UpToGt
  assume "matchPiece p s = Some r"
  with UpToGt obtain c where "dropWhile (\<lambda>c. c \<noteq> CHR ''>'') s = c # r"
    by (auto split: list.splits)
  with length_dropWhile_le [of "\<lambda>c. c \<noteq> CHR ''>''" s] show ?thesis by simp
qed (auto simp add: length_dropWhile_le split: if_splits)

lemma matchPieces_length: "matchPieces ps s = Some r \<Longrightarrow> length r \<le> length s"
proof (induction ps arbitrary: s)
  case Nil
  then show ?case by simp
next
  case (Cons p ps)
  then obtain r1 where a: "matchPiece p s = Some r1" and b: "matchPieces ps r1 = Some r"
    by (auto split: option.splits)
  from matchPiece_length [OF a] Cons.IH [OF b] show ?case by simp
qed

lemma emptyCell_shorter: "matchPieces emptyCell s = Some r \<Longrightarrow> length r < length s"
proof -
  assume m: "matchPieces emptyCell s = Some r"
  then obtain r1 r2 where a: "matchPiece Spaces s = Some r1"
    and b: "matchPiece (Lit ''<w:tc'') r1 = Some r2"
    and c: "matchPieces (tl (tl emptyCell)) r2 = Some r"
    by (auto simp add: emptyCell_def split: option.splits if_splits)
  from b have "startsWith r1 ''<w:tc''" and "r2 = drop (length ''<w:tc'') r1"
    by (auto split: if_splits)
  then have "length r2 < length r1" using startsWith_length [of r1 "''<w:tc''"] by simp
  with matchPiece_length [OF a] matchPieces_length [OF c] show ?thesis by simp
qed

text \<open>
  \<^verbatim>\<open>(cell)+<\/w:tr>\<close>: as many cells as possible, then the end of the row, with one
  cell less where the end of the row does not follow.
\<close>

function matchCells :: "string \<Rightarrow> string option" where
  "matchCells s =
     (case matchPieces emptyCell s of
        None \<Rightarrow> None
      | Some r \<Rightarrow>
          (case matchCells r of
             Some e \<Rightarrow> Some e
           | None \<Rightarrow> matchPiece (Lit ''</w:tr>'') r))"
  by pat_completeness auto
termination
  by (relation "measure length") (auto simp add: emptyCell_shorter)

declare matchCells.simps [simp del]

definition emptyMultiCellRowPattern :: "string \<Rightarrow> string option" where
  "emptyMultiCellRowPattern s =
     (case matchPieces rowOpen s of None \<Rightarrow> None | Some r \<Rightarrow> matchCells r)"

text \<open>\<^verbatim>\<open>s.match(/re/g)\<close>: the matches from left to right, none overlapping (no match: \<open>[]\<close>, for \<^verbatim>\<open>null\<close>).\<close>

fun matchAll :: "(string \<Rightarrow> (nat \<times> string) option) \<Rightarrow> string \<Rightarrow> string list" where
  "matchAll m [] = []"
| "matchAll m (c # cs) =
     (case m (c # cs) of
        Some (n, r) \<Rightarrow> take n (c # cs) # matchAll m (drop (n - 1) cs)
      | None \<Rightarrow> matchAll m cs)"

text \<open>\<^verbatim>\<open><w:t[^>]*>([^<]*)<\/w:t>\<close>, a text leaf, and \<^verbatim>\<open><[^>]*>\<close>, a tag.\<close>

definition textLeaf :: "string \<Rightarrow> (nat \<times> string) option" where
  "textLeaf = removing (matchPieces [Lit ''<w:t'', UpToGt, Text, Lit ''</w:t>''])"

definition anyTag :: "string \<Rightarrow> (nat \<times> string) option" where
  "anyTag = removing (matchPieces [Lit ''<'', UpToGt])"

text \<open>\<^verbatim>\<open>text.replace(/<[^>]*>/g, '').trim()\<close>.\<close>

definition innerText :: "string \<Rightarrow> string" where
  "innerText text = trim (replaceAll anyTag text)"

text \<open>
  The test of the callback: \<^verbatim>\<open>actualText\<close> is not \<^verbatim>\<open>null\<close> and none of its leaves has
  text left after trimming. (\<^verbatim>\<open>hasActualContent\<close> is computed and never used.)
\<close>

definition emptyRow :: "string \<Rightarrow> bool" where
  "emptyRow content =
     (let actualText = matchAll textLeaf content
      in actualText \<noteq> [] \<and> \<not> list_ex (\<lambda>text. innerText text \<noteq> []) actualText)"

text \<open>
  \<^verbatim>\<open><w:tr[^>]*>([\s\S]*?)<\/w:tr>\<close> with its callback: the row reaches to the first
  \<^verbatim>\<open></w:tr>\<close> behind the opening tag.
\<close>

definition whitespaceOnlyRowPattern :: "string \<Rightarrow> (nat \<times> string) option" where
  "whitespaceOnlyRowPattern s =
     (case matchPieces rowOpen s of
        None \<Rightarrow> None
      | Some r \<Rightarrow>
          (case indexOf r ''</w:tr>'' of
             None \<Rightarrow> None
           | Some k \<Rightarrow>
               (let content = take k r;
                    match = take (length s - length r + k + 7) s
                in Some (length match, if emptyRow content then [] else match))))"

definition removeEmptyControlRows :: "string \<Rightarrow> string" where
  "removeEmptyControlRows xml =
     replaceAll whitespaceOnlyRowPattern
       (replaceAll (removing emptyMultiCellRowPattern)
          (replaceAll (removing emptyControlRowPattern) xml))"


subsection \<open>Table loops (TemplateEngine.processAdvancedTable, processTableLoops)\<close>

text \<open>
  \<^verbatim>\<open>[\s\S]*?\<close> before the rest of a pattern: the rest is tried behind no character,
  behind one, behind two, and so on; the first position where it matches wins.
\<close>

fun firstSuffix :: "(string \<Rightarrow> 'a option) \<Rightarrow> string \<Rightarrow> 'a option" where
  "firstSuffix f [] = f []"
| "firstSuffix f (c # cs) = (case f (c # cs) of Some x \<Rightarrow> Some x | None \<Rightarrow> firstSuffix f cs)"

text \<open>
  \<^verbatim>\<open>\$\{#each\s+([^}]+)\}\<close>: the path and the text behind the brace. \<^verbatim>\<open>\s+\<close> takes all
  the white space; when the brace follows at once, it gives its last character to
  the path.
\<close>

definition eachOpen :: "string \<Rightarrow> (string \<times> string) option" where
  "eachOpen s =
     (if \<not> startsWith s ''${#each'' then None
      else let w = takeWhile isSpace (drop 7 s);
               r = dropWhile isSpace (drop 7 s);
               path = takeWhile (\<lambda>c. c \<noteq> CHR ''}'') r;
               behind = dropWhile (\<lambda>c. c \<noteq> CHR ''}'') r
           in if w = [] \<or> behind = [] then None
              else if path \<noteq> [] then Some (path, tl behind)
              else if length w \<ge> 2 then Some ([last w], tl behind)
              else None)"

text \<open>
  \<^verbatim>\<open><w:tr[^>]*>[\s\S]*?\$\{#each\s+([^}]+)\}[\s\S]*?<\/w:tr>([\s\S]*?)<w:tr[^>]*>[\s\S]*?\$\{\/each\}[\s\S]*?<\/w:tr>\<close>:
  the path, the text between the two rows, and the text behind the match.
\<close>

definition tableLoopPattern :: "string \<Rightarrow> (string \<times> string \<times> string) option" where
  "tableLoopPattern s =
     (case matchPieces rowOpen s of
        None \<Rightarrow> None
      | Some a \<Rightarrow>
          firstSuffix (\<lambda>b.
            case eachOpen b of
              None \<Rightarrow> None
            | Some (arrayPath, c) \<Rightarrow>
                firstSuffix (\<lambda>d.
                  case matchPiece (Lit ''</w:tr>'') d of
                    None \<Rightarrow> None
                  | Some e \<Rightarrow>
                      firstSuffix (\<lambda>f.
                        case matchPieces rowOpen f of
                          None \<Rightarrow> None
                        | Some g \<Rightarrow>
                            firstSuffix (\<lambda>i.
                              case matchPiece (Lit ''${/each}'') i of
                                None \<Rightarrow> None
                              | Some j \<Rightarrow>
                                  firstSuffix (\<lambda>k.
                                    case matchPiece (Lit ''</w:tr>'') k of
                                      None \<Rightarrow> None
                                    | Some behind \<Rightarrow>
                                        Some (arrayPath, take (length e - length f) e, behind)) j) g) e) c) a)"

text \<open>The context of one item in \<^verbatim>\<open>processAdvancedTable\<close>.\<close>

definition tableContextData :: "'n js_host \<Rightarrow> 'n jsval \<Rightarrow> 'n jsval \<Rightarrow> nat \<Rightarrow> nat \<Rightarrow> 'n jsval" where
  "tableContextData h data item index count =
     Obj (foldl (\<lambda>fs kv. setField (fst kv) (snd kv) fs) (spreadFields data)
            [(''this'', item),
             (''index'', Num (num_of_nat h index)),
             (''first'', Bool (index = 0)),
             (''last'', Bool (index = count - 1))])"

definition tableLoop :: "'n js_host \<Rightarrow> 'n registry \<Rightarrow> 'n jsval \<Rightarrow> string \<Rightarrow> string \<Rightarrow> string" where
  "tableLoop h reg data arrayPath contentBetween =
     (case evaluate h arrayPath data of
        Inl e \<Rightarrow> ''[ERROR: Table loop '' @ arrayPath @ '']''
      | Inr (Arr arrayData) \<Rightarrow>
          concat (map (\<lambda>index.
                         processConditionsInLoop h
                           (processVariablesInLoop h reg contentBetween
                              (tableContextData h data (arrayData ! index) index (length arrayData)))
                           (tableContextData h data (arrayData ! index) index (length arrayData)))
                    [0 ..< length arrayData])
      | Inr v \<Rightarrow> [])"

definition processAdvancedTable :: "'n js_host \<Rightarrow> 'n registry \<Rightarrow> string \<Rightarrow> 'n jsval \<Rightarrow> string" where
  "processAdvancedTable h reg xml data =
     replaceAll (\<lambda>s. case tableLoopPattern s of
                       None \<Rightarrow> None
                     | Some (arrayPath, contentBetween, behind) \<Rightarrow>
                         Some (length s - length behind, tableLoop h reg data arrayPath contentBetween))
       xml"

text \<open>
  \<^verbatim>\<open>processTableLoops\<close>: the rows \<^verbatim>\<open><w:tr[^>]*>([\s\S]*?)<\/w:tr>\<close>; a row that opens a
  loop whose path gives no array, or throws, is removed, every other row is kept.
\<close>

definition tableRow :: "'n js_host \<Rightarrow> 'n jsval \<Rightarrow> string \<Rightarrow> (nat \<times> string) option" where
  "tableRow h data s =
     (case matchPieces rowOpen s of
        None \<Rightarrow> None
      | Some r \<Rightarrow>
          (case indexOf r ''</w:tr>'' of
             None \<Rightarrow> None
           | Some k \<Rightarrow>
               (let rowContent = take k r;
                    match = take (length s - length r + k + 7) s
                in Some (length match,
                         case firstSuffix eachOpen rowContent of
                           None \<Rightarrow> match
                         | Some (arrayPath, behind) \<Rightarrow>
                             (case evaluate h arrayPath data of
                                Inr (Arr arrayData) \<Rightarrow> match
                              | _ \<Rightarrow> [])))))"

definition processTableLoops :: "'n js_host \<Rightarrow> string \<Rightarrow> 'n jsval \<Rightarrow> string" where
  "processTableLoops h xml data = replaceAll (tableRow h data) xml"

definition processTables :: "'n js_host \<Rightarrow> string \<Rightarrow> 'n jsval \<Rightarrow> string" where
  "processTables h xml data = removeEmptyControlRows (processTableLoops h xml data)"

subsection \<open>The pipeline (TemplateEngine.processAdvancedTemplate)\<close>

text \<open>
  What \<^verbatim>\<open>processAdvancedTemplate\<close> does to the text of \<^verbatim>\<open>word/document.xml\<close> between
  reading it from the archive and writing it back.
\<close>

definition processDocumentXml :: "'n js_host \<Rightarrow> 'n registry \<Rightarrow> string \<Rightarrow> 'n jsval \<Rightarrow> string" where
  "processDocumentXml h reg documentXml data =
     processRemainingVariables h reg
       (processConditions h
          (processTables h
             (processAdvancedTable h reg
                (processLoops h reg (cleanWordXmlLikeLibreOffice documentXml) data) data)
             data)
          data)
       data"


section \<open>Numeric formatters (FormatHelper.setupDefaultFormatters)\<close>

text \<open>\<^verbatim>\<open>Number(value) || 0\<close>: the coercion may throw; NaN and zero become 0.\<close>

definition numberOrZero :: "'n js_host \<Rightarrow> 'n jsval \<Rightarrow> 'n result" where
  "numberOrZero h v =
     (case toNumber h v of
        Inl e \<Rightarrow> Inl e
      | Inr n \<Rightarrow> Inr (if num_falsy h n then num_of_nat h 0 else n))"

text \<open>The first argument after the value, with a default that applies when it is missing or \<^verbatim>\<open>undefined\<close>.\<close>

definition firstArgOr :: "'n jsval \<Rightarrow> 'n jsval list \<Rightarrow> 'n jsval" where
  "firstArgOr d args = (case args of [] \<Rightarrow> d | Undefined # _ \<Rightarrow> d | a # _ \<Rightarrow> a)"

text \<open>\<^verbatim>\<open>v || d\<close>.\<close>

definition orElse :: "'n js_host \<Rightarrow> 'n jsval \<Rightarrow> 'n jsval \<Rightarrow> 'n jsval" where
  "orElse h v d = (if truthy h v then v else d)"

text \<open>
  \<^verbatim>\<open>currency\<close>: \<^verbatim>\<open>(value, options = {})\<close>, the currency and the locale read from the
  options, then \<^verbatim>\<open>new Intl.NumberFormat(locale, {style: 'currency', currency}).format(num)\<close>.
\<close>

definition fmtCurrency :: "'n js_host \<Rightarrow> 'n formatter" where
  "fmtCurrency h v args =
     (case numberOrZero h v of
        Inl e \<Rightarrow> Inl e
      | Inr num \<Rightarrow>
          (case readProp h (firstArgOr (Obj []) args) ''currency'' of
             Inl e \<Rightarrow> Inl e
           | Inr c \<Rightarrow>
               (case readProp h (firstArgOr (Obj []) args) ''locale'' of
                  Inl e \<Rightarrow> Inl e
                | Inr l \<Rightarrow>
                    (case intl_currency h (orElse h l (Str ''en-US'')) (orElse h c (Str ''USD'')) num of
                       Inl e \<Rightarrow> Inl e
                     | Inr s \<Rightarrow> Inr (Str s)))))"

text \<open>\<^verbatim>\<open>number\<close>: \<^verbatim>\<open>num.toFixed(decimals)\<close> with \<^verbatim>\<open>options.decimals\<close>, 2 when that is \<^verbatim>\<open>undefined\<close>.\<close>

definition fmtNumber :: "'n js_host \<Rightarrow> 'n formatter" where
  "fmtNumber h v args =
     (case numberOrZero h v of
        Inl e \<Rightarrow> Inl e
      | Inr num \<Rightarrow>
          (case readProp h (firstArgOr (Obj []) args) ''decimals'' of
             Inl e \<Rightarrow> Inl e
           | Inr d \<Rightarrow>
               (case to_fixed h num (if d \<noteq> Undefined then d else Num (num_of_nat h 2)) of
                  Inl e \<Rightarrow> Inl e
                | Inr s \<Rightarrow> Inr (Str s))))"

text \<open>\<^verbatim>\<open>percent\<close>: \<^verbatim>\<open>(num * 100).toFixed(2) + '%'\<close>.\<close>

definition fmtPercent :: "'n js_host \<Rightarrow> 'n formatter" where
  "fmtPercent h v args =
     (case numberOrZero h v of
        Inl e \<Rightarrow> Inl e
      | Inr num \<Rightarrow>
          (case to_fixed h (num_mul h num (num_of_nat h 100)) (Num (num_of_nat h 2)) of
             Inl e \<Rightarrow> Inl e
           | Inr s \<Rightarrow> Inr (Str (s @ ''%''))))"

text \<open>
  \<^verbatim>\<open>round\<close>: \<^verbatim>\<open>(value, places = 0)\<close> and
  \<^verbatim>\<open>Math.round(num * Math.pow(10, places)) / Math.pow(10, places)\<close>; \<^verbatim>\<open>Math.pow\<close>
  coerces \<^verbatim>\<open>places\<close> to a number.
\<close>

definition fmtRound :: "'n js_host \<Rightarrow> 'n formatter" where
  "fmtRound h v args =
     (case numberOrZero h v of
        Inl e \<Rightarrow> Inl e
      | Inr num \<Rightarrow>
          (case toNumber h (firstArgOr (Num (num_of_nat h 0)) args) of
             Inl e \<Rightarrow> Inl e
           | Inr places \<Rightarrow>
               Inr (Num (num_div h
                           (num_round h (num_mul h num (num_pow h (num_of_nat h 10) places)))
                           (num_pow h (num_of_nat h 10) places)))))"

text \<open>The four numeric entries of the default registry.\<close>

definition numericFormatters :: "'n js_host \<Rightarrow> 'n registry" where
  "numericFormatters h name =
     (if name = ''currency'' then Some (fmtCurrency h)
      else if name = ''number'' then Some (fmtNumber h)
      else if name = ''percent'' then Some (fmtPercent h)
      else if name = ''round'' then Some (fmtRound h)
      else None)"


section \<open>Objects with identity (DocumentGenerator.preprocessData, the loop contexts)\<close>

text \<open>
  The functions above read their data as values. Whether a call changes an object
  of its caller is a question about objects that are shared, so the functions that
  create or write objects are modelled over a store: a list of cells, the address of
  a cell being its position. A value is a primitive or the address of a cell. An
  array cell holds its elements and the named properties set on it. The functions
  of the model are the three closures that \<^verbatim>\<open>preprocessData\<close> puts under
  \<^verbatim>\<open>_helpers\<close>. An address beyond the store, which no running program holds, reads as
  \<^verbatim>\<open>undefined\<close> and cannot be written.
\<close>

datatype helper = FormatDate | FormatCurrency | FormatNumber

datatype 'n prim = PUndefined | PNull | PBool bool | PNum 'n | PStr string | PFun helper

datatype 'n ref = Prim "'n prim" | Ptr nat

datatype 'n cell =
    ObjCell "(string \<times> 'n ref) list"
  | ArrCell "'n ref list" "(string \<times> 'n ref) list"

type_synonym 'n store = "'n cell list"

definition cellAt :: "'n store \<Rightarrow> nat \<Rightarrow> 'n cell option" where
  "cellAt H a = (if a < length H then Some (H ! a) else None)"

text \<open>A new object: the store grows by one cell, at the next address.\<close>

definition alloc :: "'n cell \<Rightarrow> 'n store \<Rightarrow> nat \<times> 'n store" where
  "alloc c H = (length H, H @ [c])"








definition isNullishRef :: "'n ref \<Rightarrow> bool" where
  "isNullishRef v = (v = Prim PUndefined \<or> v = Prim PNull)"



subsection \<open>\<^verbatim>\<open>JSON.parse(JSON.stringify(data))\<close>\<close>






subsection \<open>\<^verbatim>\<open>normalizeTextFields\<close>\<close>


text \<open>\<^verbatim>\<open>es.map(f)\<close> for a callback that works on the store; an error ends the loop.\<close>

fun mapStore ::
  "('n store \<Rightarrow> 'a \<Rightarrow> 'b result \<times> 'n store) \<Rightarrow> 'n store \<Rightarrow> 'a list \<Rightarrow> 'b list result \<times> 'n store" where
  "mapStore f H [] = (Inr [], H)"
| "mapStore f H (x # xs) =
     (case f H x of
        (Inl e, H1) \<Rightarrow> (Inl e, H1)
      | (Inr y, H1) \<Rightarrow>
          (case mapStore f H1 xs of
             (Inl e, H2) \<Rightarrow> (Inl e, H2)
           | (Inr ys, H2) \<Rightarrow> (Inr (y # ys), H2)))"



subsection \<open>\<^verbatim>\<open>preprocessData\<close>\<close>




subsection \<open>The context of one loop iteration\<close>


text \<open>The cells below the address \<open>m\<close> are the same in both stores, and none is lost.\<close>

definition keeps :: "nat \<Rightarrow> 'n store \<Rightarrow> 'n store \<Rightarrow> bool" where
  "keeps m H H' = (length H \<le> length H' \<and> take m H' = take m H)"


section \<open>Rendering over the store\<close>

text \<open>
  The rendering functions above take their data as a value. Here they run on a
  reference into the store, together with the value that the engine reads through
  it: the texts are computed from the value as above, and the store records every
  object that the rendering creates.
\<close>

subsection \<open>References and the values read through them\<close>

text \<open>
  A reference reads as a value: a primitive as itself, an object or an array as the
  values of its properties or elements. (A function is no value of the template
  language and reads as nothing.)
\<close>

inductive reads :: "'n store \<Rightarrow> 'n ref \<Rightarrow> 'n jsval \<Rightarrow> bool" for H :: "'n store" where
  "reads H (Prim PUndefined) Undefined"
| "reads H (Prim PNull) Null"
| "reads H (Prim (PBool b)) (Bool b)"
| "reads H (Prim (PNum n)) (Num n)"
| "reads H (Prim (PStr s)) (Str s)"
| "cellAt H a = Some (ObjCell fs)
   \<Longrightarrow> list_all2 (\<lambda>kr kv. fst kr = fst kv \<and> reads H (snd kr) (snd kv)) fs fvs
   \<Longrightarrow> reads H (Ptr a) (Obj fvs)"
| "cellAt H a = Some (ArrCell es [])
   \<Longrightarrow> list_all2 (reads H) es vs
   \<Longrightarrow> reads H (Ptr a) (Arr vs)"









lemma mapStore_cong [fundef_cong]:
  "H = H' \<Longrightarrow> xs = ys \<Longrightarrow> (\<And>G x. x \<in> set ys \<Longrightarrow> f G x = g G x)
   \<Longrightarrow> mapStore f H xs = mapStore g H' ys"
proof (induction ys arbitrary: H H' xs)
  case Nil
  then show ?case by simp
next
  case (Cons y ys)
  then have e: "f G x = g G x" if "x \<in> set (y # ys)" for G x using that by blast
  have "mapStore f G ys = mapStore g G ys" for G
    by (rule Cons.IH) (simp_all add: e)
  then show ?case using Cons.prems(1,2) e [of y] by (simp split: prod.split sum.split)
qed

subsection \<open>\<^verbatim>\<open>processLoops\<close> over the store\<close>





section \<open>An engine for closed examples\<close>

text \<open>
  The theorems below hold for every engine. To state them at concrete inputs we fix
  one: its numbers are the integers and NaN, and it runs with code generation from
  strings switched off, so that the Function constructor throws on every source
  (as every engine does on a source that does not parse). Nothing is inherited from
  prototypes. It serves the examples only.
\<close>

datatype sample_num = NotANumber | Whole int

definition showInt :: "int \<Rightarrow> string" where
  "showInt i = (if i < 0 then CHR ''-'' # nat_to_string (nat (- i)) else nat_to_string (nat i))"

definition showNum :: "sample_num \<Rightarrow> string" where
  "showNum n = (case n of NotANumber \<Rightarrow> ''NaN'' | Whole i \<Rightarrow> showInt i)"

text \<open>A string as a number: empty after trimming is 0, decimal digits with a sign are an integer.\<close>

definition readNum :: "string \<Rightarrow> sample_num" where
  "readNum s =
     (let t = trim s;
          u = (if startsWith t ''-'' \<or> startsWith t ''+'' then tl t else t)
      in if t = [] then Whole 0
         else if u \<noteq> [] \<and> list_all isDigit u
              then Whole (if startsWith t ''-'' then - int (digits_to_nat u) else int (digits_to_nat u))
         else NotANumber)"

definition liftNum :: "(int \<Rightarrow> int \<Rightarrow> 'a) \<Rightarrow> 'a \<Rightarrow> sample_num \<Rightarrow> sample_num \<Rightarrow> 'a" where
  "liftNum f d a b = (case (a, b) of (Whole x, Whole y) \<Rightarrow> f x y | _ \<Rightarrow> d)"

definition sample_host :: "sample_num js_host" where
  "sample_host =
     \<lparr> run_function = (\<lambda>src. None),
       inherited = (\<lambda>v k. Undefined),
       json_stringify = (\<lambda>v. ''null''),
       json_number = (\<lambda>n. if n = NotANumber then Null else Num n),
       num_of_nat = (\<lambda>n. Whole (int n)),
       num_nan = NotANumber,
       num_falsy = (\<lambda>n. n = NotANumber \<or> n = Whole 0),
       num_to_string = showNum,
       str_to_num = readNum,
       parse_float = readNum,
       num_eq = liftNum (\<lambda>x y. x = y) False,
       num_lt = liftNum (\<lambda>x y. x < y) False,
       num_le = liftNum (\<lambda>x y. x \<le> y) False,
       num_mul = liftNum (\<lambda>x y. Whole (x * y)) NotANumber,
       num_div = liftNum (\<lambda>x y. if y \<noteq> 0 \<and> y dvd x then Whole (x div y) else NotANumber) NotANumber,
       num_pow = liftNum (\<lambda>x y. if 0 \<le> y then Whole (x ^ nat y) else NotANumber) NotANumber,
       num_round = (\<lambda>n. n),
       to_fixed = (\<lambda>n d. Inr (showNum n @ (if n = NotANumber then [] else ''.00''))),
       intl_currency = (\<lambda>locale currency n. Inr (''$'' @ showNum n @ ''.00'')),
       msg_object_keys = ''Cannot convert undefined or null to object'',
       msg_read_property = ''Cannot read properties of null'',
       msg_to_primitive = ''Cannot convert object to primitive value'' \<rparr>"

text \<open>No formatter is registered.\<close>

definition no_formatters :: "sample_num registry" where
  "no_formatters = (\<lambda>name. None)"








section \<open>Bulk generation (DocumentGenerator.js)\<close>

text \<open>
  One slot of the array returned by \<^verbatim>\<open>generateMultipleDocuments\<close>: the object
  \<^verbatim>\<open>{index, success: true, document, size}\<close> or \<^verbatim>\<open>{index, success: false, error}\<close>.
  A generated document is a buffer, modelled as a list of bytes; \<^verbatim>\<open>size\<close> is its length.
\<close>

datatype 'b item_result =
    Success (index: nat) (document: "'b list") (size: nat)
  | Failure (index: nat) (error: string)

text \<open>
  \<^verbatim>\<open>generateDocument(templateBuffer, data, {...options, index: i})\<close> is a parameter
  \<open>gen\<close>: it receives the dataset and the index placed in the options, and either
  returns the buffer or throws an error with a message (\<open>Inl\<close>).
\<close>

fun generateMultipleFrom ::
  "('d \<Rightarrow> nat \<Rightarrow> string + 'b list) \<Rightarrow> nat \<Rightarrow> 'd list \<Rightarrow> 'b item_result list" where
  "generateMultipleFrom gen i [] = []"
| "generateMultipleFrom gen i (d # ds) =
     (case gen d i of
        Inr doc \<Rightarrow> Success i doc (length doc)
      | Inl msg \<Rightarrow> Failure i msg) # generateMultipleFrom gen (Suc i) ds"

definition generateMultipleDocuments ::
  "('d \<Rightarrow> nat \<Rightarrow> string + 'b list) \<Rightarrow> 'd list \<Rightarrow> 'b item_result list" where
  "generateMultipleDocuments gen dataArray = generateMultipleFrom gen 0 dataArray"

text \<open>\<^verbatim>\<open>Array.prototype.slice(start, end)\<close> on integer arguments.\<close>

definition js_slice :: "int \<Rightarrow> int \<Rightarrow> 'a list \<Rightarrow> 'a list" where
  "js_slice start end xs =
     (let n = int (length xs);
          k = (if start < 0 then max (n + start) 0 else min start n);
          e = (if end < 0 then max (n + end) 0 else min end n)
      in take (nat (e - k)) (drop (nat k) xs))"

text \<open>
  The loop of \<^verbatim>\<open>batchGenerate\<close>: \<^verbatim>\<open>for (let i = 0; i < dataArray.length; i += batchSize)\<close>.
  The optional sleep between batches does not touch the results and is left out.
  The loop does not end for a negative batch size, so it is a partial function.
\<close>

partial_function (option) batchLoop ::
  "('d \<Rightarrow> nat \<Rightarrow> string + 'b list) \<Rightarrow> int \<Rightarrow> 'd list \<Rightarrow> int \<Rightarrow> 'b item_result list
     \<Rightarrow> 'b item_result list option" where
  "batchLoop gen batchSize dataArray i results =
     (if i < int (length dataArray)
      then batchLoop gen batchSize dataArray (i + batchSize)
             (results @ generateMultipleDocuments gen (js_slice i (i + batchSize) dataArray))
      else Some results)"

text \<open>\<^verbatim>\<open>options.batchSize || 10\<close>: an absent or zero batch size becomes 10.\<close>

definition batchGenerate ::
  "('d \<Rightarrow> nat \<Rightarrow> string + 'b list) \<Rightarrow> 'd list \<Rightarrow> int option \<Rightarrow> 'b item_result list option" where
  "batchGenerate gen dataArray optBatchSize =
     (let batchSize = (case optBatchSize of None \<Rightarrow> 10 | Some b \<Rightarrow> if b = 0 then 10 else b)
      in batchLoop gen batchSize dataArray 0 [])"

section \<open>Results\<close>

subsection \<open>Markup normalizer\<close>

lemma nestedSeams_cases:
  "nestedSeams n @ ''<w:t>'' @ t = ''<w:t>'' @ t \<or> (\<exists>v. nestedSeams n @ ''<w:t>'' @ t = ''</w:t></w:r><w:r>'' @ v)"
  by (cases n) auto

lemma lit_open_close:
  "replaceAll (matchLit ''</w:t></w:r><w:r><w:t>'') (''</w:t></w:r><w:r>'' @ ''<w:t>'' @ t)
     = replaceAll (matchLit ''</w:t></w:r><w:r><w:t>'') t"
  by (simp add: matchLit_def)

lemma lit_open_open:
  "replaceAll (matchLit ''</w:t></w:r><w:r><w:t>'') (''</w:t></w:r><w:r>'' @ ''</w:t></w:r><w:r>'' @ v)
     = ''</w:t></w:r><w:r>'' @ replaceAll (matchLit ''</w:t></w:r><w:r><w:t>'') (''</w:t></w:r><w:r>'' @ v)"
  by (simp add: matchLit_def)

lemma lit_close:
  "replaceAll (matchLit ''</w:t></w:r><w:r><w:t>'') (''<w:t>'' @ t)
     = ''<w:t>'' @ replaceAll (matchLit ''</w:t></w:r><w:r><w:t>'') t"
  by (simp add: matchLit_def)

lemma lit_nested:
  "replaceAll (matchLit ''</w:t></w:r><w:r><w:t>'') (nestedSeams (Suc n) @ t)
     = nestedSeams n @ replaceAll (matchLit ''</w:t></w:r><w:r><w:t>'') t"
proof (induction n arbitrary: t)
  case 0
  show ?case using lit_open_close [of t] by simp
next
  case (Suc n)
  have "replaceAll (matchLit ''</w:t></w:r><w:r><w:t>'') (nestedSeams (Suc (Suc n)) @ t)
      = replaceAll (matchLit ''</w:t></w:r><w:r><w:t>'')
          (''</w:t></w:r><w:r>'' @ ''</w:t></w:r><w:r>'' @ (nestedSeams n @ ''<w:t>'' @ ''<w:t>'' @ t))"
    by simp
  also have "\<dots> = ''</w:t></w:r><w:r>'' @ replaceAll (matchLit ''</w:t></w:r><w:r><w:t>'')
          (nestedSeams (Suc n) @ (''<w:t>'' @ t))"
    by (simp only: lit_open_open) simp
  also have "\<dots> = ''</w:t></w:r><w:r>'' @ nestedSeams n @ replaceAll (matchLit ''</w:t></w:r><w:r><w:t>'') (''<w:t>'' @ t)"
    by (simp only: Suc.IH)
  also have "\<dots> = nestedSeams (Suc n) @ replaceAll (matchLit ''</w:t></w:r><w:r><w:t>'') t"
    by (simp only: lit_close) simp
  finally show ?case .
qed

lemma attrs_open:
  "replaceAll matchSeamAttrs (''</w:t></w:r><w:r>'' @ v) = ''</w:t></w:r><w:r>'' @ replaceAll matchSeamAttrs v"
  by (simp add: matchSeamAttrs_def isSpace_def)

lemma attrs_close:
  "replaceAll matchSeamAttrs (''<w:t>'' @ v) = ''<w:t>'' @ replaceAll matchSeamAttrs v"
  by (simp add: matchSeamAttrs_def)

lemma attrs_nested:
  "replaceAll matchSeamAttrs (nestedSeams n @ t) = nestedSeams n @ replaceAll matchSeamAttrs t"
proof (induction n arbitrary: t)
  case 0
  show ?case by simp
next
  case (Suc n)
  have "replaceAll matchSeamAttrs (nestedSeams (Suc n) @ t)
      = replaceAll matchSeamAttrs (''</w:t></w:r><w:r>'' @ (nestedSeams n @ (''<w:t>'' @ t)))"
    by simp
  also have "\<dots> = ''</w:t></w:r><w:r>'' @ nestedSeams n @ ''<w:t>'' @ replaceAll matchSeamAttrs t"
    by (simp only: attrs_open Suc.IH attrs_close)
  finally show ?case by simp
qed

lemma preserve_open_close:
  "replaceAll matchSeamPreserve (''</w:t></w:r><w:r>'' @ ''<w:t>'' @ t)
     = ''</w:t></w:r><w:r>'' @ replaceAll matchSeamPreserve (''<w:t>'' @ t)"
  by (simp add: matchSeamPreserve_def isSpace_def)

lemma preserve_open_open:
  "replaceAll matchSeamPreserve (''</w:t></w:r><w:r>'' @ ''</w:t></w:r><w:r>'' @ v)
     = ''</w:t></w:r><w:r>'' @ replaceAll matchSeamPreserve (''</w:t></w:r><w:r>'' @ v)"
  by (simp add: matchSeamPreserve_def)

lemma preserve_close:
  "replaceAll matchSeamPreserve (''<w:t>'' @ v) = ''<w:t>'' @ replaceAll matchSeamPreserve v"
  by (simp add: matchSeamPreserve_def)

lemma preserve_nested:
  "replaceAll matchSeamPreserve (nestedSeams n @ t) = nestedSeams n @ replaceAll matchSeamPreserve t"
proof (induction n arbitrary: t)
  case 0
  show ?case by simp
next
  case (Suc n)
  let ?o = "''</w:t></w:r><w:r>''"
  have step: "replaceAll matchSeamPreserve (?o @ (nestedSeams n @ ''<w:t>'' @ t))
      = ?o @ replaceAll matchSeamPreserve (nestedSeams n @ ''<w:t>'' @ t)"
    using nestedSeams_cases [of n t]
  proof
    assume "nestedSeams n @ ''<w:t>'' @ t = ''<w:t>'' @ t"
    then show ?thesis by (simp only: preserve_open_close)
  next
    assume "\<exists>v. nestedSeams n @ ''<w:t>'' @ t = ?o @ v"
    then obtain v where "nestedSeams n @ ''<w:t>'' @ t = ?o @ v" ..
    then show ?thesis by (simp only: preserve_open_open)
  qed
  have "replaceAll matchSeamPreserve (nestedSeams (Suc n) @ t)
      = replaceAll matchSeamPreserve (?o @ (nestedSeams n @ ''<w:t>'' @ t))"
    by simp
  also have "\<dots> = ?o @ nestedSeams n @ ''<w:t>'' @ replaceAll matchSeamPreserve t"
    by (simp only: step Suc.IH preserve_close)
  finally show ?case by simp
qed

lemma mergePass_nestedSeams: "mergePass (nestedSeams (Suc n)) = nestedSeams n"
proof -
  have a: "replaceAll matchSeamAttrs (nestedSeams (Suc n)) = nestedSeams (Suc n)"
    using attrs_nested [of "Suc n" "[]"] by simp
  have b: "replaceAll (matchLit ''</w:t></w:r><w:r><w:t>'') (nestedSeams (Suc n)) = nestedSeams n"
    using lit_nested [of n "[]"] by simp
  have c: "replaceAll matchSeamPreserve (nestedSeams n) = nestedSeams n"
    using preserve_nested [of n "[]"] by simp
  show ?thesis unfolding mergePass_def by (simp only: a b c)
qed

lemma length_nestedSeams: "length (nestedSeams n) = 22 * n"
  by (induction n) simp_all

lemma mergeLoop_nestedSeams:
  assumes "i < 20"
  shows "mergeLoop (nestedSeams (Suc n)) i = mergeLoop (nestedSeams n) (Suc i)"
proof -
  have "length (nestedSeams n) < length (nestedSeams (Suc n))"
    by (simp only: length_nestedSeams) simp
  with assms show ?thesis
    by (subst mergeLoop.simps) (simp only: mergePass_nestedSeams Let_def, simp)
qed

lemma mergeLoop_last: "snd (mergeLoop xml 20) = 21"
  by (subst mergeLoop.simps) (simp add: Let_def)

lemma mergeLoop_count:
  "k \<le> 20 \<Longrightarrow> snd (mergeLoop (nestedSeams (k + m)) (20 - k)) = 21"
proof (induction k)
  case 0
  show ?case by (simp add: mergeLoop_last)
next
  case (Suc k)
  then have "20 - Suc k < 20" and "Suc (20 - Suc k) = 20 - k" and "k \<le> 20" by simp_all
  then show ?case using Suc.IH mergeLoop_nestedSeams [of "20 - Suc k" "k + m"] by simp
qed

lemma nestedSeams_chars: "set (nestedSeams n) \<subseteq> set ''</w:t>r''"
  by (induction n) auto

lemma replaceAll_none: "(\<And>c cs. c \<in> set s \<Longrightarrow> m (c # cs) = None) \<Longrightarrow> replaceAll m s = s"
  by (induction s) simp_all

lemma matchAttr_nonspace: "\<not> isSpace c \<Longrightarrow> matchAttr name (c # cs) = None"
  by (simp add: matchAttr_def)

lemma startsWith_set: "startsWith s p \<Longrightarrow> set p \<subseteq> set s"
  by (induction s p rule: startsWith.induct) auto

lemma matchProofErr_none: "CHR ''p'' \<notin> set s \<Longrightarrow> matchProofErr s = None"
  using startsWith_set [of s "''<w:proofErr''"] by (auto simp: matchProofErr_def)

lemma replaceAll_proofErr: "CHR ''p'' \<notin> set s \<Longrightarrow> replaceAll matchProofErr s = s"
  by (induction s) (simp_all add: matchProofErr_none)

lemma stripRevisionMarks_nestedSeams: "stripRevisionMarks (nestedSeams n) = nestedSeams n"
proof -
  have sp: "\<not> isSpace c" if "c \<in> set (nestedSeams n)" for c
    using that nestedSeams_chars [of n] by (auto simp: isSpace_def)
  have a: "replaceAll (matchAttr name) (nestedSeams n) = nestedSeams n" for name
    by (rule replaceAll_none) (simp add: matchAttr_nonspace sp)
  have "CHR ''p'' \<notin> set (nestedSeams n)"
    using nestedSeams_chars [of n] by auto
  then have p: "replaceAll matchProofErr (nestedSeams n) = nestedSeams n"
    by (rule replaceAll_proofErr)
  show ?thesis unfolding stripRevisionMarks_def by (simp only: foldl.simps a p)
qed

text \<open>
  Claim C9, at a failing input. On twenty-one nested seams every round of the merge
  loop removes one level, and the loop stops only when the counter has passed 20:
  normalization performs 21 rounds of the run-merging pass, one more than the
  ceiling of 20.
\<close>

theorem merge_loop_runs_21_rounds: "mergeIterations (nestedSeams 21) = 21"
  using mergeLoop_count [of 20 1] by (simp add: mergeIterations_def stripRevisionMarks_nestedSeams)

text \<open>The counter never passes 21, so the loop is bounded on every input.\<close>

lemma mergeLoop_bound: "snd (mergeLoop xml i) \<le> max 21 (Suc i)"
proof (induction xml i rule: mergeLoop.induct)
  case (1 xml iterations)
  show ?case
    by (subst mergeLoop.simps) (use 1 in \<open>auto simp: Let_def\<close>)
qed

subsection \<open>Searching for a marker\<close>

lemma startsWith_iff: "startsWith s p \<longleftrightarrow> (\<exists>r. s = p @ r)"
  by (induction s p rule: startsWith.induct) auto

lemma startsWith_straddle:
  assumes "startsWith (a @ c0 # t) (c0 # m')" and "c0 \<notin> set m'" and "a \<noteq> []"
  shows "startsWith a (c0 # m')"
proof -
  from assms(1) obtain r where eq: "a @ c0 # t = (c0 # m') @ r"
    by (auto simp: startsWith_iff)
  show ?thesis
  proof (cases "length (c0 # m') \<le> length a")
    case True
    with eq have "take (length (c0 # m')) a = c0 # m'"
      by (metis append_eq_conv_conj take_append diff_is_0_eq take_0 append_Nil2)
    then have "a = (c0 # m') @ drop (length (c0 # m')) a"
      by (metis append_take_drop_id)
    then show ?thesis using startsWith_iff by blast
  next
    case False
    then have lt: "length a < length (c0 # m')" by simp
    have "(a @ c0 # t) ! length a = c0" by simp
    moreover from lt have "((c0 # m') @ r) ! length a = (c0 # m') ! length a"
      by (simp only: nth_append if_True)
    ultimately have "(c0 # m') ! length a = c0" using eq by simp
    moreover from assms(3) obtain k where k: "length a = Suc k" by (cases a) auto
    ultimately have "m' ! k = c0" by simp
    moreover from lt k have "k < length m'" by simp
    ultimately show ?thesis using assms(2) by (metis nth_mem)
  qed
qed

lemma indexOf_None_Cons:
  "indexOf (x # a) m = None \<Longrightarrow> \<not> startsWith (x # a) m \<and> indexOf a m = None"
  by (auto split: if_splits)

lemma indexOf_append_marker:
  assumes "c0 \<notin> set m'" and "indexOf a (c0 # m') = None"
  shows "indexOf (a @ c0 # t) (c0 # m') = map_option (\<lambda>i. length a + i) (indexOf (c0 # t) (c0 # m'))"
  using assms(2)
proof (induction a)
  case Nil
  show ?case by (simp add: option.map_ident)
next
  case (Cons x a)
  from indexOf_None_Cons [OF Cons.prems]
  have ns: "\<not> startsWith (x # a) (c0 # m')" and rest: "indexOf a (c0 # m') = None" by simp_all
  have "\<not> startsWith ((x # a) @ c0 # t) (c0 # m')"
    using startsWith_straddle [OF _ assms(1), of "x # a" t] ns by blast
  then have "indexOf ((x # a) @ c0 # t) (c0 # m') = map_option Suc (indexOf (a @ c0 # t) (c0 # m'))"
    by (simp only: append_Cons indexOf.simps if_False)
  also have "\<dots> = map_option Suc (map_option (\<lambda>i. length a + i) (indexOf (c0 # t) (c0 # m')))"
    by (simp only: Cons.IH [OF rest])
  finally show ?case by (simp add: option.map_comp comp_def)
qed

lemma indexOf_None_drop:
  "indexOf a m = None \<Longrightarrow> i < length a \<Longrightarrow> \<not> startsWith (drop i a) m"
proof (induction a arbitrary: i)
  case Nil
  then show ?case by simp
next
  case (Cons x a)
  from indexOf_None_Cons [OF Cons.prems(1)]
  have ns: "\<not> startsWith (x # a) m" and rest: "indexOf a m = None" by simp_all
  show ?case
  proof (cases i)
    case 0
    with ns show ?thesis by simp
  next
    case (Suc j)
    with Cons.prems(2) Cons.IH [OF rest, of j] show ?thesis by simp
  qed
qed

lemma no_match_before:
  assumes "c0 \<notin> set m'" and "indexOf pre (c0 # m') = None" and "i < length pre"
  shows "\<not> startsWith (drop i pre @ c0 # t) (c0 # m')"
proof
  assume "startsWith (drop i pre @ c0 # t) (c0 # m')"
  moreover from assms(3) have "drop i pre \<noteq> []" by simp
  ultimately have "startsWith (drop i pre) (c0 # m')"
    using startsWith_straddle [OF _ assms(1)] by blast
  with indexOf_None_drop [OF assms(2,3)] show False by simp
qed

lemma replaceAll_skip:
  "(\<And>i. i < length pre \<Longrightarrow> m (drop i pre @ s) = None) \<Longrightarrow>
   replaceAll m (pre @ s) = pre @ replaceAll m s"
proof (induction pre)
  case Nil
  show ?case by simp
next
  case (Cons x pre)
  from Cons.prems [of 0] have "m (x # pre @ s) = None" by simp
  moreover have "replaceAll m (pre @ s) = pre @ replaceAll m s"
  proof (rule Cons.IH)
    fix i assume "i < length pre"
    then show "m (drop i pre @ s) = None" using Cons.prems [of "Suc i"] by simp
  qed
  ultimately show ?case by simp
qed

subsection \<open>Interpolation: one directive in a text\<close>

lemma takeWhile_stop:
  "\<forall>x\<in>set xs. P x \<Longrightarrow> \<not> P y \<Longrightarrow> takeWhile P (xs @ y # ys) = xs"
  by (induction xs) auto

lemma dropWhile_stop:
  "\<forall>x\<in>set xs. P x \<Longrightarrow> \<not> P y \<Longrightarrow> dropWhile P (xs @ y # ys) = y # ys"
  by (induction xs) auto

lemma startsWith_append: "startsWith (p @ s) p"
  by (induction p) auto

lemma matchVariable_skip: "CHR ''$'' \<noteq> c \<Longrightarrow> matchVariable cb (c # s) = None"
  by (simp add: matchVariable_def)

lemma replaceAll_variable_skip:
  "CHR ''$'' \<notin> set pre \<Longrightarrow>
   replaceAll (matchVariable cb) (pre @ s) = pre @ replaceAll (matchVariable cb) s"
  by (induction pre) (simp_all add: matchVariable_skip)

lemma matchVariable_hit:
  assumes "e \<noteq> []" and "CHR ''}'' \<notin> set e"
  shows "matchVariable cb (''${'' @ e @ ''}'' @ post)
         = Some (length e + 3, cb (''${'' @ e @ ''}'') e)"
proof -
  have t: "takeWhile (\<lambda>c. c \<noteq> CHR ''}'') (e @ CHR ''}'' # post) = e"
    using assms(2) by (intro takeWhile_stop) auto
  have d: "dropWhile (\<lambda>c. c \<noteq> CHR ''}'') (e @ CHR ''}'' # post) = CHR ''}'' # post"
    using assms(2) by (intro dropWhile_stop) auto
  have k: "take (length e + 3) (''${'' @ e @ CHR ''}'' # post) = ''${'' @ e @ ''}''"
    by (simp add: numeral_3_eq_3)
  show ?thesis using assms(1) k by (simp add: matchVariable_def t d)
qed

lemma replaceAll_variable_hit:
  assumes "e \<noteq> []" and "CHR ''}'' \<notin> set e"
  shows "replaceAll (matchVariable cb) (''${'' @ e @ ''}'' @ post)
         = cb (''${'' @ e @ ''}'') e @ replaceAll (matchVariable cb) post"
proof -
  have "replaceAll (matchVariable cb) (CHR ''$'' # (CHR ''{'' # e @ CHR ''}'' # post))
      = cb (''${'' @ e @ ''}'') e @ replaceAll (matchVariable cb) (drop (length e + 2) (CHR ''{'' # e @ CHR ''}'' # post))"
    using matchVariable_hit [OF assms, of cb post] by simp
  then show ?thesis by simp
qed

lemma replaceAll_variable_one:
  assumes "CHR ''$'' \<notin> set pre" and "e \<noteq> []" and "CHR ''}'' \<notin> set e"
  shows "replaceAll (matchVariable cb) (pre @ ''${'' @ e @ ''}'' @ post)
         = pre @ cb (''${'' @ e @ ''}'') e @ replaceAll (matchVariable cb) post"
  by (simp only: replaceAll_variable_skip [OF assms(1)] replaceAll_variable_hit [OF assms(2,3)])

lemma splitOn_none: "sep \<notin> set s \<Longrightarrow> splitOn sep s = [s]"
  by (induction s) auto

lemma escapeXml_empty: "escapeXml [] = []"
  by (simp add: escapeXml_def replaceChar_def)


lemma trim_trim: "trim (trim s) = trim s"
proof -
  define a where "a = dropWhile isSpace s"
  define b where "b = rev (dropWhile isSpace (rev a))"
  have split: "a = b @ rev (takeWhile isSpace (rev a))"
    unfolding b_def by (metis rev_append rev_rev_ident takeWhile_dropWhile_id)
  have front: "dropWhile isSpace b = b"
  proof (cases "b = []")
    case True
    then show ?thesis by simp
  next
    case False
    with split have "hd b = hd a" and "a \<noteq> []" by (metis hd_append2, metis append_is_Nil_conv)
    moreover from \<open>a \<noteq> []\<close> have "\<not> isSpace (hd a)"
      unfolding a_def by (rule hd_dropWhile)
    ultimately show ?thesis by (simp add: dropWhile_eq_self_iff)
  qed
  have rear: "dropWhile isSpace (rev b) = rev b"
    unfolding b_def by simp
  have "trim s = b" by (simp add: trim_def a_def b_def)
  moreover have "trim b = b" by (simp add: trim_def front rear)
  ultimately show ?thesis by simp
qed


subsection \<open>Conditions: one block in a text\<close>

lemma matchIfBlock_else:
  assumes w: "w \<noteq> []" "\<forall>x\<in>set w. isSpace x"
      and c: "c \<noteq> []" "\<not> isSpace (hd c)" "CHR ''}'' \<notin> set c"
      and a: "indexOf A ''${/if}'' = None" "indexOf A ''${#else}'' = None"
      and b: "indexOf B ''${/if}'' = None"
  shows "matchIfBlock (''${#if'' @ w @ c @ ''}'' @ A @ ''${#else}'' @ B @ ''${/if}'' @ post)
         = Some (length (''${#if'' @ w @ c @ ''}'' @ A @ ''${#else}'' @ B @ ''${/if}''), c, A, B)"
proof -
  define body where "body = A @ ''${#else}'' @ B @ ''${/if}'' @ post"
  from c obtain c1 cs where cc: "c = c1 # cs" and c1: "\<not> isSpace c1" by (cases c) auto
  have tw: "takeWhile isSpace (w @ c @ CHR ''}'' # body) = w"
    unfolding cc using takeWhile_stop [of w isSpace c1] w(2) c1 by simp
  have dw: "dropWhile isSpace (w @ c @ CHR ''}'' # body) = c @ CHR ''}'' # body"
    unfolding cc using dropWhile_stop [of w isSpace c1] w(2) c1 by simp
  have tc: "takeWhile (\<lambda>x. x \<noteq> CHR ''}'') (c @ CHR ''}'' # body) = c"
    by (rule takeWhile_stop) (use c(3) in auto)
  have dc: "dropWhile (\<lambda>x. x \<noteq> CHR ''}'') (c @ CHR ''}'' # body) = CHR ''}'' # body"
    by (rule dropWhile_stop) (use c(3) in auto)
  have e8: "(\<lambda>x::nat. Suc (Suc (Suc (Suc (Suc (Suc (Suc (Suc x)))))))) = (+) 8"
    by (rule ext) simp
  have i1: "indexOf body ''${/if}'' = Some (length A + 8 + length B)"
  proof -
    have "indexOf (A @ CHR ''$'' # (''{#else}'' @ B @ ''${/if}'' @ post)) ''${/if}''
        = map_option (\<lambda>i. length A + i) (indexOf (CHR ''$'' # (''{#else}'' @ B @ ''${/if}'' @ post)) ''${/if}'')"
      using indexOf_append_marker [of "CHR ''$''" "''{/if}''" A] a(1) by simp
    moreover have "indexOf (CHR ''$'' # (''{#else}'' @ B @ ''${/if}'' @ post)) ''${/if}''
        = map_option (\<lambda>i. 8 + i) (indexOf (B @ CHR ''$'' # (''{/if}'' @ post)) ''${/if}'')"
      by (simp add: option.map_comp comp_def e8)
    moreover have "indexOf (B @ CHR ''$'' # (''{/if}'' @ post)) ''${/if}''
        = map_option (\<lambda>i. length B + i) (indexOf (CHR ''$'' # (''{/if}'' @ post)) ''${/if}'')"
      using indexOf_append_marker [of "CHR ''$''" "''{/if}''" B] b by simp
    moreover have "indexOf (CHR ''$'' # (''{/if}'' @ post)) ''${/if}'' = Some 0" by simp
    ultimately show ?thesis unfolding body_def by simp
  qed
  have tk: "take (length A + 8 + length B) body = A @ ''${#else}'' @ B"
    unfolding body_def by (simp add: take_Cons')
  have ta: "take (length A) body = A"
    unfolding body_def by simp
  have i2: "indexOf (A @ ''${#else}'' @ B) ''${#else}'' = Some (length A)"
  proof -
    have "indexOf (A @ CHR ''$'' # (''{#else}'' @ B)) ''${#else}''
        = map_option (\<lambda>i. length A + i) (indexOf (CHR ''$'' # (''{#else}'' @ B)) ''${#else}'')"
      using indexOf_append_marker [of "CHR ''$''" "''{#else}''" A] a(2) by simp
    then show ?thesis by simp
  qed
  have "matchIfBlock (''${#if'' @ w @ c @ CHR ''}'' # body)
      = Some (5 + length w + length c + 1 + (length A + 8 + length B) + 6, c, A, B)"
    unfolding matchIfBlock_def using w(1) c(1)
    by (simp add: tw dw tc dc i1 tk [simplified] i2 [simplified] ta Let_def)
  then show ?thesis unfolding body_def by simp
qed

lemma matchIfBlock_noelse:
  assumes w: "w \<noteq> []" "\<forall>x\<in>set w. isSpace x"
      and c: "c \<noteq> []" "\<not> isSpace (hd c)" "CHR ''}'' \<notin> set c"
      and a: "indexOf A ''${/if}'' = None" "indexOf A ''${#else}'' = None"
  shows "matchIfBlock (''${#if'' @ w @ c @ ''}'' @ A @ ''${/if}'' @ post)
         = Some (length (''${#if'' @ w @ c @ ''}'' @ A @ ''${/if}''), c, A, [])"
proof -
  define body where "body = A @ ''${/if}'' @ post"
  from c obtain c1 cs where cc: "c = c1 # cs" and c1: "\<not> isSpace c1" by (cases c) auto
  have tw: "takeWhile isSpace (w @ c @ CHR ''}'' # body) = w"
    unfolding cc using takeWhile_stop [of w isSpace c1] w(2) c1 by simp
  have dw: "dropWhile isSpace (w @ c @ CHR ''}'' # body) = c @ CHR ''}'' # body"
    unfolding cc using dropWhile_stop [of w isSpace c1] w(2) c1 by simp
  have tc: "takeWhile (\<lambda>x. x \<noteq> CHR ''}'') (c @ CHR ''}'' # body) = c"
    by (rule takeWhile_stop) (use c(3) in auto)
  have dc: "dropWhile (\<lambda>x. x \<noteq> CHR ''}'') (c @ CHR ''}'' # body) = CHR ''}'' # body"
    by (rule dropWhile_stop) (use c(3) in auto)
  have i1: "indexOf body ''${/if}'' = Some (length A)"
  proof -
    have "indexOf (A @ CHR ''$'' # (''{/if}'' @ post)) ''${/if}''
        = map_option (\<lambda>i. length A + i) (indexOf (CHR ''$'' # (''{/if}'' @ post)) ''${/if}'')"
      using indexOf_append_marker [of "CHR ''$''" "''{/if}''" A] a(1) by simp
    then show ?thesis unfolding body_def by simp
  qed
  have ta: "take (length A) body = A"
    unfolding body_def by simp
  have "matchIfBlock (''${#if'' @ w @ c @ CHR ''}'' # body)
      = Some (5 + length w + length c + 1 + length A + 6, c, A, [])"
    unfolding matchIfBlock_def using w(1) c(1)
    by (simp add: tw dw tc dc i1 ta a(2) Let_def)
  then show ?thesis unfolding body_def by simp
qed

lemma matchIfBlock_None: "\<not> startsWith s ''${#if'' \<Longrightarrow> matchIfBlock s = None"
  by (simp add: matchIfBlock_def Let_def)

lemma replaceAll_condition_skip:
  assumes "indexOf pre ''${#if'' = None"
  shows "replaceAll (matchCondition cb) (pre @ CHR ''$'' # t)
         = pre @ replaceAll (matchCondition cb) (CHR ''$'' # t)"
proof (rule replaceAll_skip)
  fix i assume "i < length pre"
  then have "\<not> startsWith (drop i pre @ CHR ''$'' # t) ''${#if''"
    using no_match_before [of "CHR ''$''" "''{#if''" pre i t] assms by simp
  then show "matchCondition cb (drop i pre @ CHR ''$'' # t) = None"
    by (simp add: matchCondition_def matchIfBlock_None)
qed

lemma replaceAll_condition_hit:
  assumes "matchIfBlock (CHR ''$'' # block @ post) = Some (Suc (length block), c, A, B)"
  shows "replaceAll (matchCondition cb) (CHR ''$'' # block @ post)
         = cb c A B @ replaceAll (matchCondition cb) post"
  using assms by (simp add: matchCondition_def)

lemma processConditions_else:
  assumes "indexOf pre ''${#if'' = None"
      and "w \<noteq> []" "\<forall>x\<in>set w. isSpace x"
      and "c \<noteq> []" "\<not> isSpace (hd c)" "CHR ''}'' \<notin> set c"
      and "indexOf A ''${/if}'' = None" "indexOf A ''${#else}'' = None"
      and "indexOf B ''${/if}'' = None"
  shows "processConditions h (pre @ ''${#if'' @ w @ c @ ''}'' @ A @ ''${#else}'' @ B @ ''${/if}'' @ post) data
         = pre @ conditionBranch h data c A B @ processConditions h post data"
proof -
  let ?block = "''{#if'' @ w @ c @ ''}'' @ A @ ''${#else}'' @ B @ ''${/if}''"
  have m: "matchIfBlock (CHR ''$'' # ?block @ post) = Some (Suc (length ?block), c, A, B)"
    using matchIfBlock_else [OF assms(2-9), of post] by simp
  have "processConditions h (pre @ CHR ''$'' # (?block @ post)) data
      = pre @ conditionBranch h data c A B @ processConditions h post data"
    unfolding processConditions_def
    by (simp only: replaceAll_condition_skip [OF assms(1)] replaceAll_condition_hit [OF m])
  then show ?thesis by simp
qed

lemma processConditions_noelse:
  assumes "indexOf pre ''${#if'' = None"
      and "w \<noteq> []" "\<forall>x\<in>set w. isSpace x"
      and "c \<noteq> []" "\<not> isSpace (hd c)" "CHR ''}'' \<notin> set c"
      and "indexOf A ''${/if}'' = None" "indexOf A ''${#else}'' = None"
  shows "processConditions h (pre @ ''${#if'' @ w @ c @ ''}'' @ A @ ''${/if}'' @ post) data
         = pre @ conditionBranch h data c A [] @ processConditions h post data"
proof -
  let ?block = "''{#if'' @ w @ c @ ''}'' @ A @ ''${/if}''"
  have m: "matchIfBlock (CHR ''$'' # ?block @ post) = Some (Suc (length ?block), c, A, [])"
    using matchIfBlock_noelse [OF assms(2-8), of post] by simp
  have "processConditions h (pre @ CHR ''$'' # (?block @ post)) data
      = pre @ conditionBranch h data c A [] @ processConditions h post data"
    unfolding processConditions_def
    by (simp only: replaceAll_condition_skip [OF assms(1)] replaceAll_condition_hit [OF m])
  then show ?thesis by simp
qed

lemma conditionBranch_host_fails:
  assumes "replaceAllThrow (matchThisWord h data) [] c = Inr c1"
      and "replaceAllThrow (matchThisIdent h data) [] (normalizeCondition c1) = Inr c2"
      and "run_function h (substituteVariables h c2 data) = None"
  shows "conditionBranch h data c A B = B"
  using assms
  by (simp add: conditionBranch_def evaluateCondition_def evaluateComplexExpression_def safeEvaluate_def)

lemma conditionBranch_throws:
  assumes "replaceAllThrow (matchThisWord h data) [] c = Inl msg"
  shows "conditionBranch h data c A B = A"
  using assms by (simp add: conditionBranch_def)

lemma loop_complex_fails:
  assumes "CHR ''$'' \<notin> set pre"
      and "CHR ''}'' \<notin> set e" and "CHR ''|'' \<notin> set e"
      and "\<not> startsWith (trim e) ''#each'' \<and> \<not> startsWith (trim e) ''#if''
           \<and> \<not> startsWith (trim e) ''/each'' \<and> \<not> startsWith (trim e) ''/if''"
      and "trim e \<noteq> []" and "\<not> startsWith (trim e) ''this.''" and "\<not> isSimplePath (trim e)"
      and "\<not> isNullish data"
      and "run_function h (substituteVariables h (trim e) data) = None"
  shows "processVariablesInLoop h reg (pre @ ''${'' @ e @ ''}'' @ post) data
         = pre @ processVariablesInLoop h reg post data"
proof -
  from assms(5) have e: "e \<noteq> []" by (auto simp: trim_def)
  have names: "trim e \<notin> set [''this'', ''index'', ''first'', ''last'', ''count'']"
  proof
    assume "trim e \<in> set [''this'', ''index'', ''first'', ''last'', ''count'']"
    then have "isSimplePath (trim e)"
      by (auto simp: isSimplePath_def isIdentStart_def isPathChar_def isWordChar_def)
    with assms(7) show False by simp
  qed
  have ev: "evaluate h (trim e) data = Inr Null"
    using assms(5,7,8,9)
    by (simp add: evaluate_def evaluateComplexExpression_def trim_trim safeEvaluate_def)
  have cb: "loopVariable h reg data (''${'' @ e @ ''}'') e = []"
    using assms(4,6) names
    by (simp add: loopVariable_def splitOn_none [OF assms(3)] ev isNullish_def escapeXml_empty Let_def)
  show ?thesis
    unfolding processVariablesInLoop_def
    by (simp only: replaceAll_variable_one [OF assms(1) e assms(2)] cb append_Nil)
qed

subsection \<open>Loops: one loop in a text\<close>

lemma indexOfFrom_prefix:
  "indexOfFrom (a @ s) p (length a + k) = map_option (\<lambda>i. length a + i) (indexOfFrom s p k)"
  by (simp add: indexOfFrom_def option.map_comp comp_def add.assoc)

lemma findClose_prefix:
  "findClose (a @ s) d (length a + c) = map_option (\<lambda>i. length a + i) (findClose s d c)"
proof (induction s d c rule: findClose.induct)
  case (1 resultXml depth currentIndex)
  have dr: "drop (length a + currentIndex) (a @ resultXml) = drop currentIndex resultXml"
    by simp
  show ?case
  proof (cases "depth > 0 \<and> currentIndex < length resultXml")
    case False
    then show ?thesis
      by (subst findClose.simps, subst (2) findClose.simps) auto
  next
    case guard: True
    show ?thesis
    proof (cases "indexOf (drop currentIndex resultXml) ''${/each}''")
      case None
      with guard show ?thesis
        by (subst findClose.simps, subst (2) findClose.simps) (simp add: dr)
    next
      case nc: (Some nextClose)
      show ?thesis
      proof (cases "indexOf (drop currentIndex resultXml) ''${#each ''")
        case None
        show ?thesis
        proof (cases "depth - 1 = 0")
          case True
          with guard nc None show ?thesis
            by (subst findClose.simps, subst (2) findClose.simps) (simp add: dr)
        next
          case False
          from "1.IH"(1) [OF guard nc None False]
          have "findClose (a @ resultXml) (depth - 1) (length a + (currentIndex + nextClose + 1))
              = map_option (\<lambda>i. length a + i) (findClose resultXml (depth - 1) (currentIndex + nextClose + 1))" .
          with guard nc None False show ?thesis
            by (subst findClose.simps, subst (2) findClose.simps) (simp add: dr add.assoc)
        qed
      next
        case no: (Some nextOpen)
        show ?thesis
        proof (cases "nextOpen < nextClose")
          case True
          from "1.IH"(2) [OF guard nc no True]
          have "findClose (a @ resultXml) (depth + 1) (length a + (currentIndex + nextOpen + 1))
              = map_option (\<lambda>i. length a + i) (findClose resultXml (depth + 1) (currentIndex + nextOpen + 1))" .
          with guard nc no True show ?thesis
            by (subst findClose.simps, subst (2) findClose.simps) (simp add: dr add.assoc)
        next
          case nlt: False
          show ?thesis
          proof (cases "depth - 1 = 0")
            case True
            with guard nc no nlt show ?thesis
              by (subst findClose.simps, subst (2) findClose.simps) (simp add: dr)
          next
            case False
            from "1.IH"(3) [OF guard nc no nlt False]
            have "findClose (a @ resultXml) (depth - 1) (length a + (currentIndex + nextClose + 1))
              = map_option (\<lambda>i. length a + i) (findClose resultXml (depth - 1) (currentIndex + nextClose + 1))" .
            with guard nc no nlt False show ?thesis
              by (subst findClose.simps, subst (2) findClose.simps) (simp add: dr add.assoc)
          qed
        qed
      qed
    qed
  qed
qed

lemma processLoopsFrom_prefix:
  "processLoopsFrom h reg (a @ s) data (length a + k) = a @ processLoopsFrom h reg s data k"
proof (induction h reg s data k arbitrary: a rule: processLoopsFrom.induct)
  case (1 h reg resultXml data startIndex)
  note sf = indexOfFrom_prefix [of a resultXml] findClose_prefix [of a resultXml]
  show ?case
  proof (cases "indexOfFrom resultXml ''${#each '' startIndex")
    case None
    then show ?thesis
      by (subst processLoopsFrom.simps, subst (2) processLoopsFrom.simps) (simp add: sf)
  next
    case op: (Some openIndex)
    show ?thesis
    proof (cases "indexOfFrom resultXml ''}'' openIndex")
      case None
      with op show ?thesis
        by (subst processLoopsFrom.simps, subst (2) processLoopsFrom.simps) (simp add: sf)
    next
      case en: (Some openTagEndIndex)
      show ?thesis
      proof (cases "findClose resultXml 1 (openTagEndIndex + 1)")
        case None
        from "1.IH"(1) [OF op en None, of a]
        have "processLoopsFrom h reg (a @ resultXml) data (length a + (openTagEndIndex + 1))
            = a @ processLoopsFrom h reg resultXml data (openTagEndIndex + 1)" .
        moreover have "findClose (a @ resultXml) 1 (length a + openTagEndIndex + 1) = None"
          using sf(2) [of 1 "openTagEndIndex + 1"] None by (simp add: add.assoc)
        ultimately show ?thesis using op en None
          by (subst processLoopsFrom.simps, subst (2) processLoopsFrom.simps)
             (simp add: sf add.assoc)
      next
        case cl: (Some closeIndex)
        from indexOfFrom_bound [OF op] indexOfFrom_bound [OF en] findClose_bound [OF cl]
        have b: "openIndex + 8 \<le> length resultXml" "openIndex \<le> openTagEndIndex"
          "openTagEndIndex < closeIndex" "closeIndex + 8 \<le> length resultXml"
          by simp_all
        define arrayPath where
          "arrayPath = trim (take (openTagEndIndex - (openIndex + 8)) (drop (openIndex + 8) resultXml))"
        define content where
          "content = trimContent (take (closeIndex - (openTagEndIndex + 1)) (drop (openTagEndIndex + 1) resultXml))"
        define loopResult where
          "loopResult =
             (case evaluate h arrayPath data of
                Inl e \<Rightarrow> ''[ERROR: Loop '' @ arrayPath @ '' - '' @ e @ '']''
              | Inr (Arr arrayData) \<Rightarrow>
                  join [CHR 0x0A]
                    (map (\<lambda>index.
                            processVariablesInLoop h reg
                              (processConditionsInLoop h
                                 (processLoopsFrom h reg content
                                    (contextData h data (arrayData ! index) index (length arrayData)) 0)
                                 (contextData h data (arrayData ! index) index (length arrayData)))
                              (contextData h data (arrayData ! index) index (length arrayData)))
                       [0 ..< length arrayData])
              | Inr v \<Rightarrow> [])"
        have R: "processLoopsFrom h reg resultXml data startIndex
            = processLoopsFrom h reg (take openIndex resultXml @ loopResult @ drop (closeIndex + 8) resultXml) data
                (length (take openIndex resultXml) + length loopResult)"
          by (subst processLoopsFrom.simps)
             (simp only: op en cl option.case Let_def arrayPath_def content_def loopResult_def)
        have a1: "take (length a + openTagEndIndex - (length a + openIndex + 8)) (drop (length a + openIndex + 8) (a @ resultXml))
            = take (openTagEndIndex - (openIndex + 8)) (drop (openIndex + 8) resultXml)"
          by simp
        have a2: "take (length a + closeIndex - (length a + openTagEndIndex + 1)) (drop (length a + openTagEndIndex + 1) (a @ resultXml))
            = take (closeIndex - (openTagEndIndex + 1)) (drop (openTagEndIndex + 1) resultXml)"
          by simp
        have a3: "take (length a + openIndex) (a @ resultXml) = a @ take openIndex resultXml"
          by simp
        have a4: "drop (length a + closeIndex + 8) (a @ resultXml) = drop (closeIndex + 8) resultXml"
          by simp
        have fc: "findClose (a @ resultXml) 1 (length a + openTagEndIndex + 1) = Some (length a + closeIndex)"
          using sf(2) [of 1 "openTagEndIndex + 1"] cl by (simp add: add.assoc)
        have L: "processLoopsFrom h reg (a @ resultXml) data (length a + startIndex)
            = processLoopsFrom h reg ((a @ take openIndex resultXml) @ loopResult @ drop (closeIndex + 8) resultXml) data
                (length (a @ take openIndex resultXml) + length loopResult)"
          by (subst processLoopsFrom.simps)
             (simp only: sf(1) op en fc option.map option.case Let_def a1 a2 a3 a4
                arrayPath_def content_def loopResult_def)
        from "1.IH"(3) [OF op en cl arrayPath_def content_def loopResult_def refl refl, of a]
        have "processLoopsFrom h reg (a @ take openIndex resultXml @ loopResult @ drop (closeIndex + 8) resultXml) data
                (length a + (length (take openIndex resultXml) + length loopResult))
            = a @ processLoopsFrom h reg (take openIndex resultXml @ loopResult @ drop (closeIndex + 8) resultXml) data
                (length (take openIndex resultXml) + length loopResult)" .
        with L R show ?thesis by (simp add: add.assoc)
      qed
    qed
  qed
qed

lemma indexOf_char_none: "c \<notin> set u \<Longrightarrow> indexOf u [c] = None"
  by (induction u) auto

lemma findClose_flat:
  assumes "indexOf body ''${/each}'' = None" and "indexOf body ''${#each '' = None"
  shows "findClose (body @ ''${/each}'' @ post) 1 0 = Some (length body)"
proof -
  let ?s = "body @ ''${/each}'' @ post"
  have nc: "indexOf (drop 0 ?s) ''${/each}'' = Some (0 + length body)"
    using indexOf_append_marker [of "CHR ''$''" "''{/each}''" body "''{/each}'' @ post"] assms(1)
    by simp
  have no: "indexOf (drop 0 ?s) ''${#each ''
      = map_option (\<lambda>i. length body + i) (indexOf (''${/each}'' @ post) ''${#each '')"
    using indexOf_append_marker [of "CHR ''$''" "''{#each ''" body "''{/each}'' @ post"] assms(2)
    by simp
  have guard: "(1::nat) > 0 \<and> 0 < length ?s" by simp
  show ?thesis
  proof (cases "indexOf (''${/each}'' @ post) ''${#each ''")
    case None
    with no have "indexOf (drop 0 ?s) ''${#each '' = None" by simp
    with nc guard show ?thesis
      by (subst findClose.simps) simp
  next
    case (Some j)
    with no have "indexOf (drop 0 ?s) ''${#each '' = Some (length body + j)" by simp
    with nc guard show ?thesis
      by (subst findClose.simps) simp
  qed
qed

lemma processLoops_single:
  assumes pre: "indexOf pre ''${#each '' = None"
      and p: "CHR ''}'' \<notin> set p"
      and body: "findClose (body @ ''${/each}'' @ post) 1 0 = Some (length body)"
  shows "processLoops h reg (pre @ ''${#each '' @ p @ ''}'' @ body @ ''${/each}'' @ post) data
         = pre @
           (case evaluate h (trim p) data of
              Inl e \<Rightarrow> ''[ERROR: Loop '' @ trim p @ '' - '' @ e @ '']''
            | Inr (Arr arrayData) \<Rightarrow>
                join [CHR 0x0A]
                  (map (\<lambda>index.
                          processVariablesInLoop h reg
                            (processConditionsInLoop h
                               (processLoopsFrom h reg (trimContent body)
                                  (contextData h data (arrayData ! index) index (length arrayData)) 0)
                               (contextData h data (arrayData ! index) index (length arrayData)))
                            (contextData h data (arrayData ! index) index (length arrayData)))
                     [0 ..< length arrayData])
            | Inr v \<Rightarrow> [])
           @ processLoops h reg post data"
proof -
  define xml where "xml = pre @ ''${#each '' @ p @ ''}'' @ body @ ''${/each}'' @ post"
  define openIndex where "openIndex = length pre"
  define openTagEndIndex where "openTagEndIndex = length pre + 8 + length p"
  define closeIndex where "closeIndex = length pre + 8 + length p + 1 + length body"
  have op: "indexOfFrom xml ''${#each '' 0 = Some openIndex"
    using indexOf_append_marker [of "CHR ''$''" "''{#each ''" pre "''{#each '' @ p @ ''}'' @ body @ ''${/each}'' @ post"] pre
    by (simp add: indexOfFrom_def xml_def openIndex_def)
  have "indexOf ((''${#each '' @ p) @ CHR ''}'' # (body @ ''${/each}'' @ post)) ''}''
      = map_option (\<lambda>i. length (''${#each '' @ p) + i) (indexOf (CHR ''}'' # (body @ ''${/each}'' @ post)) ''}'')"
    by (rule indexOf_append_marker) (use p in \<open>simp_all add: indexOf_char_none\<close>)
  then have en: "indexOfFrom xml ''}'' openIndex = Some openTagEndIndex"
    by (simp add: indexOfFrom_def xml_def openIndex_def openTagEndIndex_def)
  define a where "a = pre @ ''${#each '' @ p @ ''}''"
  define s where "s = body @ ''${/each}'' @ post"
  have xa: "xml = a @ s" by (simp add: xml_def a_def s_def)
  have la: "length a = openTagEndIndex + 1" by (simp add: a_def openTagEndIndex_def)
  have ci: "closeIndex = openTagEndIndex + 1 + length body"
    by (simp only: closeIndex_def openTagEndIndex_def)
  have "findClose s 1 0 = Some (length body)"
    unfolding s_def by (rule body)
  with findClose_prefix [of a s 1 0]
  have "findClose (a @ s) 1 (length a + 0) = Some (length a + length body)"
    by (simp only: option.map)
  then have cl: "findClose xml 1 (openTagEndIndex + 1) = Some closeIndex"
    by (simp only: xa la ci add_0_right)
  have t1: "take (openTagEndIndex - (openIndex + 8)) (drop (openIndex + 8) xml) = p"
    by (simp add: xml_def openIndex_def openTagEndIndex_def)
  have d2: "drop (openTagEndIndex + 1) xml = s"
    unfolding xa la [symmetric] by simp
  have n2: "closeIndex - (openTagEndIndex + 1) = length body"
    using ci by simp
  have t2: "take (closeIndex - (openTagEndIndex + 1)) (drop (openTagEndIndex + 1) xml) = body"
    by (simp only: d2 n2) (simp add: s_def)
  have t3: "take openIndex xml = pre"
    by (simp add: xml_def openIndex_def)
  define q where "q = a @ body @ ''${/each}''"
  have xq: "xml = q @ post"
    by (simp add: xa s_def q_def)
  have lq: "closeIndex + 8 = length q"
    using ci la by (simp add: q_def)
  have t4: "drop (closeIndex + 8) xml = post"
    unfolding xq lq by simp
  define loopResult where
    "loopResult =
       (case evaluate h (trim p) data of
          Inl e \<Rightarrow> ''[ERROR: Loop '' @ trim p @ '' - '' @ e @ '']''
        | Inr (Arr arrayData) \<Rightarrow>
            join [CHR 0x0A]
              (map (\<lambda>index.
                      processVariablesInLoop h reg
                        (processConditionsInLoop h
                           (processLoopsFrom h reg (trimContent body)
                              (contextData h data (arrayData ! index) index (length arrayData)) 0)
                           (contextData h data (arrayData ! index) index (length arrayData)))
                        (contextData h data (arrayData ! index) index (length arrayData)))
                 [0 ..< length arrayData])
        | Inr v \<Rightarrow> [])"
  have "processLoopsFrom h reg xml data 0
      = processLoopsFrom h reg (pre @ loopResult @ post) data (length pre + length loopResult)"
    by (subst processLoopsFrom.simps)
       (simp only: op en cl option.case Let_def t1 t2 t3 t4 loopResult_def)
  also have "\<dots> = processLoopsFrom h reg ((pre @ loopResult) @ post) data (length (pre @ loopResult) + 0)"
    by simp
  also have "\<dots> = (pre @ loopResult) @ processLoopsFrom h reg post data 0"
    by (rule processLoopsFrom_prefix)
  finally show ?thesis
    by (simp add: processLoops_def xml_def loopResult_def)
qed

subsection \<open>Interpolation and the engine\<close>







text \<open>
  Claim C4, at a failing input. With the data \<^verbatim>\<open>{n: 0, f: false}\<close> the
  interpolations \<^verbatim>\<open>${n}\<close> and \<^verbatim>\<open>${f}\<close> print nothing, where the textual values
  are \<^verbatim>\<open>0\<close> and \<^verbatim>\<open>false\<close>: \<^verbatim>\<open>processRemainingVariables\<close> prints
  \<^verbatim>\<open>String(value || '')\<close>. The same interpolations inside a loop body
  (\<^verbatim>\<open>processVariablesInLoop\<close>) do print \<^verbatim>\<open>0\<close> and \<^verbatim>\<open>false\<close>.
\<close>

theorem zero_and_false_print_nothing:
  "processRemainingVariables sample_host no_formatters ''[${n}][${f}]''
     (Obj [(''n'', Num (Whole 0)), (''f'', Bool False)]) = ''[][]''
   \<and> processVariablesInLoop sample_host no_formatters ''[${n}][${f}]''
     (Obj [(''n'', Num (Whole 0)), (''f'', Bool False)]) = ''[0][false]''"
  by (simp add: processRemainingVariables_def processVariablesInLoop_def matchVariable_def
      remainingVariable_def loopVariable_def includesStr_def
      trim_def isSpace_def evaluate_def isSimplePath_def isIdentStart_def isPathChar_def
      isWordChar_def isDigit_def getNestedValue_def normalizeIndexPath_def matchBracketIndex_def
      isNullish_def isIndexKey_def emitValue_def orEmpty_def sample_host_def escapeXml_def
      replaceChar_def dq_def showNum_def showInt_def nat_to_string.simps)

subsection \<open>Failing evaluation\<close>

text \<open>
  Claim C5, counterexample. The condition \<^verbatim>\<open>((\<close> does not parse; the engine
  throws, \<^verbatim>\<open>safeEvaluate\<close> catches the error and returns \<^verbatim>\<open>null\<close>, and the block
  is replaced by its else-content: the output has no \<^verbatim>\<open>[ERROR: ...]\<close> marker.
\<close>

theorem failing_condition_takes_else_branch:
  "processConditions sample_host ''a${#if ((}A${#else}B${/if}z'' (Obj []) = ''aBz''"
proof -
  have c: "conditionBranch sample_host (Obj []) ''(('' ''A'' ''B'' = ''B''"
    by (rule conditionBranch_host_fails [where ?c1.0 = "''((''" and ?c2.0 = "''((''"])
       (simp_all add: matchThisWord_def matchThisIdent_def normalizeCondition_def replaceWord_def
          matchWord_def sample_host_def)
  show ?thesis
    using processConditions_else [of "''a''" "'' ''" "''((''" "''A''" "''B''" sample_host "''z''" "Obj []"]
    by (simp add: c isSpace_def processConditions_def matchCondition_def matchIfBlock_def)
qed

text \<open>
  Claim C5, as amended. When the evaluation of an expression fails in the engine,
  the failure is caught inside the evaluator and the value is \<^verbatim>\<open>null\<close>. A
  top-level \<^verbatim>\<open>#if\<close> block whose condition fails this way counts as false: it is
  replaced by its else-content, or by nothing when it has no \<^verbatim>\<open>${#else}\<close>. An
  interpolation in a loop body whose expression fails this way prints nothing. In
  each case only the directive's own text is replaced, no marker is written, and the
  text before and after it is rendered as usual.
\<close>

theorem host_failure_is_silent:
  assumes "indexOf pre ''${#if'' = None"
      and "w \<noteq> []" and "\<forall>x\<in>set w. isSpace x"
      and "c \<noteq> []" and "\<not> isSpace (hd c)" and "CHR ''}'' \<notin> set c"
      and "indexOf A ''${/if}'' = None" and "indexOf A ''${#else}'' = None"
      and "indexOf B ''${/if}'' = None"
      and "replaceAllThrow (matchThisWord h data) [] c = Inr c1"
      and "replaceAllThrow (matchThisIdent h data) [] (normalizeCondition c1) = Inr c2"
      and "run_function h (substituteVariables h c2 data) = None"
      and "CHR ''$'' \<notin> set pre'"
      and "CHR ''}'' \<notin> set e" and "CHR ''|'' \<notin> set e"
      and "\<not> startsWith (trim e) ''#each'' \<and> \<not> startsWith (trim e) ''#if''
           \<and> \<not> startsWith (trim e) ''/each'' \<and> \<not> startsWith (trim e) ''/if''"
      and "trim e \<noteq> []" and "\<not> startsWith (trim e) ''this.''" and "\<not> isSimplePath (trim e)"
      and "\<not> isNullish ctx"
      and "run_function h (substituteVariables h (trim e) ctx) = None"
  shows "processConditions h (pre @ ''${#if'' @ w @ c @ ''}'' @ A @ ''${#else}'' @ B @ ''${/if}'' @ post) data
           = pre @ B @ processConditions h post data
         \<and> processConditions h (pre @ ''${#if'' @ w @ c @ ''}'' @ A @ ''${/if}'' @ post) data
           = pre @ processConditions h post data
         \<and> processVariablesInLoop h reg (pre' @ ''${'' @ e @ ''}'' @ post') ctx
           = pre' @ processVariablesInLoop h reg post' ctx"
proof -
  note b = conditionBranch_host_fails [OF assms(10-12)]
  have "processConditions h (pre @ ''${#if'' @ w @ c @ ''}'' @ A @ ''${#else}'' @ B @ ''${/if}'' @ post) data
           = pre @ B @ processConditions h post data"
    by (simp only: processConditions_else [OF assms(1-9)] b)
  moreover have "processConditions h (pre @ ''${#if'' @ w @ c @ ''}'' @ A @ ''${/if}'' @ post) data
           = pre @ processConditions h post data"
    by (simp only: processConditions_noelse [OF assms(1-8)] b append_Nil)
  moreover have "processVariablesInLoop h reg (pre' @ ''${'' @ e @ ''}'' @ post') ctx
           = pre' @ processVariablesInLoop h reg post' ctx"
    by (rule loop_complex_fails [OF assms(13-21)])
  ultimately show ?thesis by simp
qed

theorem host_failure_is_silent_witness:
  "indexOf ''a'' ''${#if'' = None
   \<and> '' '' \<noteq> [] \<and> list_all isSpace '' ''
   \<and> ''(('' \<noteq> [] \<and> \<not> isSpace (hd ''(('') \<and> CHR ''}'' \<notin> set ''((''
   \<and> indexOf ''A'' ''${/if}'' = None \<and> indexOf ''A'' ''${#else}'' = None
   \<and> indexOf ''B'' ''${/if}'' = None
   \<and> replaceAllThrow (matchThisWord sample_host (Obj [])) [] ''(('' = Inr ''((''
   \<and> replaceAllThrow (matchThisIdent sample_host (Obj [])) [] (normalizeCondition ''(('') = Inr ''((''
   \<and> run_function sample_host (substituteVariables sample_host ''(('' (Obj [])) = None
   \<and> trim ''1 +'' \<noteq> [] \<and> \<not> isSimplePath (trim ''1 +'')
   \<and> run_function sample_host (substituteVariables sample_host (trim ''1 +'') (Obj [])) = None
   \<and> processConditions sample_host (''a'' @ ''${#if'' @ '' '' @ ''(('' @ ''}'' @ ''A'' @ ''${#else}'' @ ''B'' @ ''${/if}'' @ ''z'') (Obj [])
       = ''a'' @ ''B'' @ processConditions sample_host ''z'' (Obj [])
   \<and> processConditions sample_host (''a'' @ ''${#if'' @ '' '' @ ''(('' @ ''}'' @ ''A'' @ ''${/if}'' @ ''z'') (Obj [])
       = ''a'' @ processConditions sample_host ''z'' (Obj [])
   \<and> processVariablesInLoop sample_host no_formatters (''x'' @ ''${'' @ ''1 +'' @ ''}'' @ ''y'') (Obj [])
       = ''x'' @ processVariablesInLoop sample_host no_formatters ''y'' (Obj [])"
proof -
  have h1: "indexOf ''a'' ''${#if'' = None"
      "'' '' \<noteq> []" "\<forall>x\<in>set '' ''. isSpace x"
      "''(('' \<noteq> []" "\<not> isSpace (hd ''(('')" "CHR ''}'' \<notin> set ''((''"
      "indexOf ''A'' ''${/if}'' = None" "indexOf ''A'' ''${#else}'' = None"
      "indexOf ''B'' ''${/if}'' = None"
    by (simp_all add: isSpace_def)
  have h2: "replaceAllThrow (matchThisWord sample_host (Obj [])) [] ''(('' = Inr ''((''"
      "replaceAllThrow (matchThisIdent sample_host (Obj [])) [] (normalizeCondition ''(('') = Inr ''((''"
      "run_function sample_host (substituteVariables sample_host ''(('' (Obj [])) = None"
    by (simp_all add: matchThisWord_def matchThisIdent_def normalizeCondition_def replaceWord_def
          matchWord_def sample_host_def)
  have h3: "CHR ''$'' \<notin> set ''x''"
      "CHR ''}'' \<notin> set ''1 +''" "CHR ''|'' \<notin> set ''1 +''"
      "\<not> startsWith (trim ''1 +'') ''#each'' \<and> \<not> startsWith (trim ''1 +'') ''#if''
           \<and> \<not> startsWith (trim ''1 +'') ''/each'' \<and> \<not> startsWith (trim ''1 +'') ''/if''"
      "trim ''1 +'' \<noteq> []" "\<not> startsWith (trim ''1 +'') ''this.''" "\<not> isSimplePath (trim ''1 +'')"
      "\<not> isNullish (Obj [] :: sample_num jsval)"
      "run_function sample_host (substituteVariables sample_host (trim ''1 +'') (Obj [])) = None"
    by (simp_all add: trim_def isSpace_def isSimplePath_def isIdentStart_def isNullish_def sample_host_def)
  have h4: "list_all isSpace '' ''" by (simp add: isSpace_def)
  note t = host_failure_is_silent [OF h1 h2 h3, of "''z''" no_formatters "''y''"]
  show ?thesis
    by (intro conjI h1(1,2,4-9) h4 h2 h3(5) h3(7) h3(9) t [THEN conjunct1]
        t [THEN conjunct2, THEN conjunct1] t [THEN conjunct2, THEN conjunct2])
qed

subsection \<open>Loop expansion\<close>

lemma loop_expansion:
  assumes "indexOf pre ''${#each '' = None"
      and "CHR ''}'' \<notin> set p"
      and "findClose (body @ ''${/each}'' @ post) 1 0 = Some (length body)"
      and "evaluate h (trim p) data = Inr (Arr items)"
  shows "processLoops h reg (pre @ ''${#each '' @ p @ ''}'' @ body @ ''${/each}'' @ post) data
         = pre @ join [CHR 0x0A] (map (renderItem h reg (trimContent body) data items) [0 ..< length items])
             @ processLoops h reg post data"
proof -
  have r: "renderItem h reg (trimContent body) data items
      = (\<lambda>index. processVariablesInLoop h reg
            (processConditionsInLoop h
               (processLoopsFrom h reg (trimContent body)
                  (contextData h data (items ! index) index (length items)) 0)
               (contextData h data (items ! index) index (length items)))
            (contextData h data (items ! index) index (length items)))"
    by (rule ext) (simp add: renderItem_def processLoops_def Let_def)
  show ?thesis
    by (simp only: processLoops_single [OF assms(1-3)] assms(4) sum.case jsval.case r)
qed

lemma join_concat: "join sep (c # cs) = c @ concat (map (\<lambda>x. sep @ x) cs)"
  by (induction cs arbitrary: c) simp_all






text \<open>
  Claim C6, counterexample. The loop runs over three items and its body is a table
  row. \<^verbatim>\<open>processLoops\<close> emits three rows; the row of the item \<^verbatim>\<open>''\<close> has an empty
  text leaf, and \<^verbatim>\<open>removeEmptyControlRows\<close>, a later step of the same rendering,
  deletes it: the rendered document holds two copies of the body for three items.
\<close>

theorem empty_row_copy_is_removed:
  "processLoops sample_host no_formatters
     ''<w:tbl>${#each xs}<w:tr><w:tc><w:p><w:r><w:t>${this}</w:t></w:r></w:p></w:tc></w:tr>${/each}</w:tbl>''
     (Obj [(''xs'', Arr [Str ''a'', Str '''', Str ''b''])])
   = ''<w:tbl><w:tr><w:tc><w:p><w:r><w:t>a</w:t></w:r></w:p></w:tc></w:tr>'' @ [CHR 0x0A]
     @ ''<w:tr><w:tc><w:p><w:r><w:t></w:t></w:r></w:p></w:tc></w:tr>'' @ [CHR 0x0A]
     @ ''<w:tr><w:tc><w:p><w:r><w:t>b</w:t></w:r></w:p></w:tc></w:tr></w:tbl>''
   \<and> processDocumentXml sample_host no_formatters
     ''<w:tbl>${#each xs}<w:tr><w:tc><w:p><w:r><w:t>${this}</w:t></w:r></w:p></w:tc></w:tr>${/each}</w:tbl>''
     (Obj [(''xs'', Arr [Str ''a'', Str '''', Str ''b''])])
   = ''<w:tbl><w:tr><w:tc><w:p><w:r><w:t>a</w:t></w:r></w:p></w:tc></w:tr>'' @ [CHR 0x0A] @ [CHR 0x0A]
     @ ''<w:tr><w:tc><w:p><w:r><w:t>b</w:t></w:r></w:p></w:tc></w:tr></w:tbl>''"
  by code_simp

text \<open>
  Claim C6, as amended. The step \<^verbatim>\<open>processLoops\<close> replaces a loop whose path
  evaluates to a list (the body may hold loops of its own) by exactly one rendered
  copy of the body per element, in element order: the copy at position \<open>i\<close> is the
  body rendered in the context of element \<open>i\<close>, the first copy stands behind the
  text before the loop, every further copy behind a line feed, and nothing is put
  in place of the loop when the list is empty. (Later steps of the rendering may
  delete a copy again, as above.)
\<close>

theorem loop_emits_one_copy_per_item:
  assumes "indexOf pre ''${#each '' = None"
      and "CHR ''}'' \<notin> set p"
      and "findClose (body @ ''${/each}'' @ post) 1 0 = Some (length body)"
      and "evaluate h (trim p) data = Inr (Arr items)"
  shows "\<exists>copies.
           length copies = length items
           \<and> (\<forall>i<length items. copies ! i = renderItem h reg (trimContent body) data items i)
           \<and> processLoops h reg (pre @ ''${#each '' @ p @ ''}'' @ body @ ''${/each}'' @ post) data
               = pre @ (case copies of
                          [] \<Rightarrow> []
                        | c # cs \<Rightarrow> c @ concat (map (\<lambda>x. CHR 0x0A # x) cs))
                   @ processLoops h reg post data"
proof (intro exI conjI)
  let ?copies = "map (renderItem h reg (trimContent body) data items) [0 ..< length items]"
  show "length ?copies = length items" by simp
  show "\<forall>i<length items. ?copies ! i = renderItem h reg (trimContent body) data items i"
    by simp
  have "join [CHR 0x0A] ?copies
        = (case ?copies of [] \<Rightarrow> [] | c # cs \<Rightarrow> c @ concat (map (\<lambda>x. CHR 0x0A # x) cs))"
    by (cases ?copies) (simp_all only: join.simps(1) join_concat list.case append_Cons append_Nil)
  then show "processLoops h reg (pre @ ''${#each '' @ p @ ''}'' @ body @ ''${/each}'' @ post) data
          = pre @ (case ?copies of [] \<Rightarrow> [] | c # cs \<Rightarrow> c @ concat (map (\<lambda>x. CHR 0x0A # x) cs))
              @ processLoops h reg post data"
    using loop_expansion [OF assms, of reg] by simp
qed

lemma flat_sample:
  "indexOf ''<'' ''${#each '' = None" "CHR ''}'' \<notin> set ''xs''"
  "findClose (''[${this}]'' @ ''${/each}'' @ ''>'') 1 0 = Some (length ''[${this}]'')"
  "evaluate sample_host (trim ''xs'') (Obj [(''xs'', Arr [Str ''a'', Str ''b'', Str ''c''])])
     = Inr (Arr [Str ''a'', Str ''b'', Str ''c''])"
  "evaluate sample_host (trim ''xs'') (Obj [(''xs'', Arr [])]) = Inr (Arr [])"
  by code_simp+

lemma flat_sample_render:
  "renderItem sample_host no_formatters (trimContent ''[${this}]'')
     (Obj [(''xs'', Arr [Str ''a'', Str ''b'', Str ''c''])]) [Str ''a'', Str ''b'', Str ''c''] 0 = ''[a]''"
  "renderItem sample_host no_formatters (trimContent ''[${this}]'')
     (Obj [(''xs'', Arr [Str ''a'', Str ''b'', Str ''c''])]) [Str ''a'', Str ''b'', Str ''c''] 1 = ''[b]''"
  "renderItem sample_host no_formatters (trimContent ''[${this}]'')
     (Obj [(''xs'', Arr [Str ''a'', Str ''b'', Str ''c''])]) [Str ''a'', Str ''b'', Str ''c''] 2 = ''[c]''"
  "processLoops sample_host no_formatters ''>'' (Obj [(''xs'', Arr [Str ''a'', Str ''b'', Str ''c''])]) = ''>''"
  "processLoops sample_host no_formatters ''>'' (Obj [(''xs'', Arr [])]) = ''>''"
  by code_simp+

theorem loop_emits_one_copy_per_item_witness:
  "indexOf ''<'' ''${#each '' = None \<and> CHR ''}'' \<notin> set ''xs''
   \<and> findClose (''[${this}]'' @ ''${/each}'' @ ''>'') 1 0 = Some (length ''[${this}]'')
   \<and> evaluate sample_host (trim ''xs'') (Obj [(''xs'', Arr [Str ''a'', Str ''b'', Str ''c''])])
       = Inr (Arr [Str ''a'', Str ''b'', Str ''c''])
   \<and> processLoops sample_host no_formatters ''<${#each xs}[${this}]${/each}>''
         (Obj [(''xs'', Arr [Str ''a'', Str ''b'', Str ''c''])])
       = ''<[a]'' @ [CHR 0x0A] @ ''[b]'' @ [CHR 0x0A] @ ''[c]>''
   \<and> evaluate sample_host (trim ''xs'') (Obj [(''xs'', Arr [])]) = Inr (Arr [])
   \<and> processLoops sample_host no_formatters ''<${#each xs}[${this}]${/each}>'' (Obj [(''xs'', Arr [])])
       = ''<>''"
proof -
  from loop_emits_one_copy_per_item [OF flat_sample(1-4), of no_formatters]
  obtain copies where c: "length copies = length [Str ''a'', Str ''b'', Str ''c'' :: sample_num jsval]"
      "\<forall>i<length [Str ''a'', Str ''b'', Str ''c'' :: sample_num jsval].
         copies ! i = renderItem sample_host no_formatters (trimContent ''[${this}]'')
           (Obj [(''xs'', Arr [Str ''a'', Str ''b'', Str ''c''])]) [Str ''a'', Str ''b'', Str ''c''] i"
      "processLoops sample_host no_formatters
             (''<'' @ ''${#each '' @ ''xs'' @ ''}'' @ ''[${this}]'' @ ''${/each}'' @ ''>'')
             (Obj [(''xs'', Arr [Str ''a'', Str ''b'', Str ''c''])])
           = ''<'' @ (case copies of [] \<Rightarrow> [] | c # cs \<Rightarrow> c @ concat (map (\<lambda>x. CHR 0x0A # x) cs))
               @ processLoops sample_host no_formatters ''>''
                   (Obj [(''xs'', Arr [Str ''a'', Str ''b'', Str ''c''])])"
    by blast
  from c(1) obtain c0 c1 c2 where cs: "copies = [c0, c1, c2]"
    by (cases copies; cases "tl copies"; cases "tl (tl copies)") auto
  from c(2) have "copies ! 0 = ''[a]''" "copies ! 1 = ''[b]''" "copies ! 2 = ''[c]''"
    using flat_sample_render(1-3) by simp_all
  with cs have "copies = [''[a]'', ''[b]'', ''[c]'']" by simp
  with c(3) have three: "processLoops sample_host no_formatters ''<${#each xs}[${this}]${/each}>''
         (Obj [(''xs'', Arr [Str ''a'', Str ''b'', Str ''c''])])
       = ''<[a]'' @ [CHR 0x0A] @ ''[b]'' @ [CHR 0x0A] @ ''[c]>''"
    by (simp add: flat_sample_render(4))
  from loop_emits_one_copy_per_item [OF flat_sample(1-3) flat_sample(5), of no_formatters]
  obtain none where n: "length none = length ([] :: sample_num jsval list)"
      "processLoops sample_host no_formatters
             (''<'' @ ''${#each '' @ ''xs'' @ ''}'' @ ''[${this}]'' @ ''${/each}'' @ ''>'')
             (Obj [(''xs'', Arr [])])
           = ''<'' @ (case none of [] \<Rightarrow> [] | c # cs \<Rightarrow> c @ concat (map (\<lambda>x. CHR 0x0A # x) cs))
               @ processLoops sample_host no_formatters ''>'' (Obj [(''xs'', Arr [])])"
    by blast
  then have zero: "processLoops sample_host no_formatters ''<${#each xs}[${this}]${/each}>''
         (Obj [(''xs'', Arr [])]) = ''<>''"
    by (simp add: flat_sample_render(5))
  from flat_sample three zero show ?thesis by blast
qed


subsection \<open>Empty table rows\<close>

text \<open>
  Claim C7, at two failing inputs. An ordinary row whose only text leaf is blank is
  removed, as the claim says (first equation). A row that contains user text is not
  always kept: where a cell of the row holds a nested table whose row is blank,
  \<^verbatim>\<open><w:tr[^>]*>([\s\S]*?)<\/w:tr>\<close> matches from the opening tag of the outer row to
  the first \<^verbatim>\<open></w:tr>\<close>, which closes the inner row; the only text leaf in between is
  the blank one, so the callback deletes the match, and with it the opening tags of
  the outer row, whose text \<^verbatim>\<open>user\<close> is left behind with no row around it (second
  equation: no \<^verbatim>\<open><w:tr\<close> is left in the output). And a row without any text leaf,
  whose concatenated text is empty, is not removed: \<^verbatim>\<open>content.match\<close> gives
  \<^verbatim>\<open>null\<close> and the row is returned as it is (third and fourth equation).
\<close>

theorem nested_row_is_cut_and_leafless_row_is_kept:
  "removeEmptyControlRows
     ''<w:tbl><w:tr><w:tc><w:p><w:r><w:t> </w:t></w:r></w:p></w:tc></w:tr></w:tbl>''
     = ''<w:tbl></w:tbl>''
   \<and> removeEmptyControlRows
     (''<w:tbl><w:tr><w:tc>''
      @ ''<w:tbl><w:tr><w:tc><w:p><w:r><w:t> </w:t></w:r></w:p></w:tc></w:tr></w:tbl>''
      @ ''<w:p><w:r><w:t>user</w:t></w:r></w:p></w:tc></w:tr></w:tbl>'')
     = ''<w:tbl></w:tbl><w:p><w:r><w:t>user</w:t></w:r></w:p></w:tc></w:tr></w:tbl>''
   \<and> matchAll textLeaf ''<w:tc><w:p/></w:tc>'' = []
   \<and> removeEmptyControlRows ''<w:tbl><w:tr><w:tc><w:p/></w:tc></w:tr></w:tbl>''
     = ''<w:tbl><w:tr><w:tc><w:p/></w:tc></w:tr></w:tbl>''"
  by code_simp

subsection \<open>Numeric formatters\<close>

lemma numberOrZero_falsy:
  "toNumber h v = Inr n \<Longrightarrow> num_falsy h n \<Longrightarrow> numberOrZero h v = Inr (num_of_nat h 0)"
  by (simp add: numberOrZero_def)

lemma numberOrZero_zero: "numberOrZero h (Num (num_of_nat h 0)) = Inr (num_of_nat h 0)"
  by (simp add: numberOrZero_def)

lemma numberOrZero_throws: "toNumber h v = Inl msg \<Longrightarrow> numberOrZero h v = Inl msg"
  by (simp add: numberOrZero_def)

lemma formatter_throws_passes_through:
  assumes "reg ''percent'' = Some fmt" and "fmt v [] = Inl msg"
  shows "applyFormatters h reg v [''percent''] = v"
  using assms by (simp add: applyFormatters_def applyFormatter_def Let_def trim_def isSpace_def)

text \<open>
  Claim C10, as stated, fails on a value whose coercion throws: \<^verbatim>\<open>Number(v)\<close> of the
  object \<^verbatim>\<open>{"toString": 1}\<close> raises a TypeError, \<^verbatim>\<open>percent\<close> throws with it, and
  \<^verbatim>\<open>applyFormatters\<close> catches the error and returns the object itself, not
  \<^verbatim>\<open>"0.00%"\<close>.
\<close>

theorem percent_passes_uncoercible_object_through:
  "applyFormatters sample_host (numericFormatters sample_host)
     (Obj [(''toString'', Num (Whole 1))]) [''percent'']
   = Obj [(''toString'', Num (Whole 1))]"
  by code_simp

text \<open>
  Claim C10, amended: when \<^verbatim>\<open>Number(v)\<close> completes and its result is falsy (NaN or
  zero), each of \<^verbatim>\<open>currency\<close>, \<^verbatim>\<open>number\<close>, \<^verbatim>\<open>percent\<close> and \<^verbatim>\<open>round\<close> returns, for the
  same arguments, what it returns for the number 0; \<^verbatim>\<open>percent\<close> is then
  \<^verbatim>\<open>(0 * 100).toFixed(2)\<close> followed by \<^verbatim>\<open>%\<close>. When \<^verbatim>\<open>Number(v)\<close> throws, each of the
  four formatters throws the same error, and \<^verbatim>\<open>applyFormatters\<close> returns the value
  unchanged.
\<close>

theorem numeric_formatters_default_to_zero:
  "(toNumber h v = Inr n \<and> num_falsy h n \<longrightarrow>
      fmtCurrency h v args = fmtCurrency h (Num (num_of_nat h 0)) args
      \<and> fmtNumber h v args = fmtNumber h (Num (num_of_nat h 0)) args
      \<and> fmtPercent h v args = fmtPercent h (Num (num_of_nat h 0)) args
      \<and> fmtRound h v args = fmtRound h (Num (num_of_nat h 0)) args
      \<and> fmtPercent h v args =
          (case to_fixed h (num_mul h (num_of_nat h 0) (num_of_nat h 100)) (Num (num_of_nat h 2)) of
             Inl e \<Rightarrow> Inl e
           | Inr s \<Rightarrow> Inr (Str (s @ ''%''))))
   \<and> (toNumber h v = Inl msg \<longrightarrow>
      fmtCurrency h v args = Inl msg \<and> fmtNumber h v args = Inl msg
      \<and> fmtPercent h v args = Inl msg \<and> fmtRound h v args = Inl msg
      \<and> applyFormatters h (numericFormatters h) v [''percent''] = v)"
proof (intro conjI impI)
  assume a: "toNumber h v = Inr n \<and> num_falsy h n"
  then have z: "numberOrZero h v = Inr (num_of_nat h 0)"
    by (simp add: numberOrZero_falsy)
  note z0 = numberOrZero_zero [of h]
  show "fmtCurrency h v args = fmtCurrency h (Num (num_of_nat h 0)) args"
    by (simp add: fmtCurrency_def z z0)
  show "fmtNumber h v args = fmtNumber h (Num (num_of_nat h 0)) args"
    by (simp add: fmtNumber_def z z0)
  show "fmtPercent h v args = fmtPercent h (Num (num_of_nat h 0)) args"
    by (simp add: fmtPercent_def z z0)
  show "fmtRound h v args = fmtRound h (Num (num_of_nat h 0)) args"
    by (simp add: fmtRound_def z z0)
  show "fmtPercent h v args =
          (case to_fixed h (num_mul h (num_of_nat h 0) (num_of_nat h 100)) (Num (num_of_nat h 2)) of
             Inl e \<Rightarrow> Inl e
           | Inr s \<Rightarrow> Inr (Str (s @ ''%'')))"
    by (simp add: fmtPercent_def z)
next
  assume t: "toNumber h v = Inl msg"
  note z = numberOrZero_throws [OF t]
  show "fmtCurrency h v args = Inl msg" by (simp add: fmtCurrency_def z)
  show "fmtNumber h v args = Inl msg" by (simp add: fmtNumber_def z)
  show "fmtPercent h v args = Inl msg" by (simp add: fmtPercent_def z)
  show "fmtRound h v args = Inl msg" by (simp add: fmtRound_def z)
  have "fmtPercent h v [] = Inl msg" by (simp add: fmtPercent_def z)
  then show "applyFormatters h (numericFormatters h) v [''percent''] = v"
    by (intro formatter_throws_passes_through [where fmt = "fmtPercent h"])
       (simp_all add: numericFormatters_def)
qed

theorem numeric_formatters_default_to_zero_witness:
  "toNumber sample_host (Str ''n/a'') = Inr NotANumber
   \<and> num_falsy sample_host NotANumber
   \<and> fmtCurrency sample_host (Str ''n/a'') [] = fmtCurrency sample_host (Num (Whole 0)) []
   \<and> fmtNumber sample_host (Str ''n/a'') [] = fmtNumber sample_host (Num (Whole 0)) []
   \<and> fmtRound sample_host (Str ''n/a'') [] = fmtRound sample_host (Num (Whole 0)) []
   \<and> fmtPercent sample_host (Str ''n/a'') [] = Inr (Str ''0.00%'')
   \<and> toNumber sample_host (Obj [(''toString'', Num (Whole 1))])
       = Inl ''Cannot convert object to primitive value''
   \<and> fmtPercent sample_host (Obj [(''toString'', Num (Whole 1))]) []
       = Inl ''Cannot convert object to primitive value''
   \<and> fmtRound sample_host (Obj [(''toString'', Num (Whole 1))]) []
       = Inl ''Cannot convert object to primitive value''"
proof -
  have c1: "toNumber sample_host (Str ''n/a'') = Inr NotANumber" by code_simp
  have c2: "num_falsy sample_host NotANumber" by code_simp
  have c3: "toNumber sample_host (Obj [(''toString'', Num (Whole 1))])
              = Inl ''Cannot convert object to primitive value''" by code_simp
  have z: "num_of_nat sample_host 0 = Whole 0" by code_simp
  have p: "(case to_fixed sample_host (num_mul sample_host (Whole 0)
                     (num_of_nat sample_host 100)) (Num (num_of_nat sample_host 2)) of
              Inl e \<Rightarrow> Inl e
            | Inr s \<Rightarrow> Inr (Str (s @ ''%''))) = (Inr (Str ''0.00%'') :: sample_num jsval result)"
    by code_simp
  note falsy = numeric_formatters_default_to_zero
                 [of sample_host "Str ''n/a''" NotANumber "[]" "[]",
                  THEN conjunct1, rule_format, OF conjI [OF c1 c2], unfolded z p]
  note throws = numeric_formatters_default_to_zero
                 [of sample_host "Obj [(''toString'', Num (Whole 1))]" NotANumber "[]"
                     "''Cannot convert object to primitive value''",
                  THEN conjunct2, rule_format, OF c3]
  from falsy
  have f1: "fmtCurrency sample_host (Str ''n/a'') [] = fmtCurrency sample_host (Num (Whole 0)) []"
    and f2: "fmtNumber sample_host (Str ''n/a'') [] = fmtNumber sample_host (Num (Whole 0)) []"
    and f3: "fmtRound sample_host (Str ''n/a'') [] = fmtRound sample_host (Num (Whole 0)) []"
    and f4: "fmtPercent sample_host (Str ''n/a'') [] = Inr (Str ''0.00%'')"
    by blast+
  from throws
  have t1: "fmtPercent sample_host (Obj [(''toString'', Num (Whole 1))]) []
              = Inl ''Cannot convert object to primitive value''"
    and t2: "fmtRound sample_host (Obj [(''toString'', Num (Whole 1))]) []
               = Inl ''Cannot convert object to primitive value''"
    by blast+
  from c1 c2 f1 f2 f3 f4 c3 t1 t2 show ?thesis by blast
qed


subsection \<open>The store\<close>



lemma keeps_append: "m \<le> length H \<Longrightarrow> keeps m H (H @ xs)"
  by (simp add: keeps_def)



lemma keeps_alloc: "m \<le> length H \<Longrightarrow> keeps m H (snd (alloc c H))"
  by (simp add: alloc_def keeps_append)













subsection \<open>Rendering over the store\<close>















lemma reads_consistent: "reads H r v \<Longrightarrow> \<not> isNullish v \<Longrightarrow> \<not> isNullishRef r"
  by (induction rule: reads.induct) (auto simp add: isNullish_def isNullishRef_def)


















subsection \<open>The caller's objects\<close>





subsection \<open>Bulk generation\<close>

lemma generateMultipleFrom_index:
  "map index (generateMultipleFrom gen i ds) = [i ..< i + length ds]"
proof (induction ds arbitrary: i)
  case Nil
  show ?case by simp
next
  case (Cons d ds)
  have "[i ..< i + length (d # ds)] = i # [Suc i ..< Suc i + length ds]"
    by (simp add: upt_rec)
  with Cons show ?case by (simp split: sum.split)
qed

text \<open>
  Claim C2, at a failing input. Three datasets generated with batch size 2 on a
  generator that always succeeds: the results come back in input order, one per
  dataset, but the third result carries index 0 (its position inside the second
  batch) and not 2.
\<close>

theorem batchGenerate_index_restarts:
  "batchGenerate (\<lambda>d i. Inr [d]) [10, 20, 30 :: nat] (Some 2)
     = Some [Success 0 [10] 1, Success 1 [20] 1, Success 0 [30] 1]"
  by (simp add: batchGenerate_def batchLoop.simps generateMultipleDocuments_def js_slice_def)

end
